theory Spec2Isabelle
  imports Complex_Main
begin

section \<open>Value types of the toolkit\<close>

text \<open>
  The decoration is written against Qt and KDecoration3. Their value types are modelled
  by what the two source files read and write of them, and their enumerations list the
  values the two source files name. \<open>qreal\<close> is modelled by the reals: rounding of
  floating point is not modelled.
\<close>

text \<open>\<open>QColor\<close>: the default-constructed colour is invalid, any other carries red,
  green, blue and alpha.\<close>

datatype color = Invalid | Rgba nat nat nat nat

fun isValid :: "color \<Rightarrow> bool" where
  "isValid Invalid = False"
| "isValid (Rgba r g b a) = True"

fun setAlpha :: "nat \<Rightarrow> color \<Rightarrow> color" where
  "setAlpha a Invalid = Invalid"
| "setAlpha a (Rgba r g b a0) = Rgba r g b a"

text \<open>The four colours of \<open>QColorConstants\<close> the buttons use.\<close>

definition Red :: color where "Red = Rgba 255 0 0 255"
definition Yellow :: color where "Yellow = Rgba 255 255 0 255"
definition Green :: color where "Green = Rgba 0 255 0 255"
definition LightGray :: color where "LightGray = Rgba 192 192 192 255"

text \<open>\<open>KColorUtils::mix\<close> belongs to another library: every function that blends
  colours takes it as its first argument.\<close>

type_synonym mix_fn = "color \<Rightarrow> color \<Rightarrow> real \<Rightarrow> color"

datatype ColorGroup = Active | Inactive
datatype ColorRole = TitleBar | Foreground

text \<open>A \<open>qreal\<close> stored into an \<open>int\<close> is truncated toward zero.\<close>

definition toInt :: "real \<Rightarrow> int" where
  "toInt v = (if 0 \<le> v then \<lfloor>v\<rfloor> else \<lceil>v\<rceil>)"

record QRect =
  r_x :: int
  r_y :: int
  r_width :: int
  r_height :: int

record QRectF =
  rf_x :: real
  rf_y :: real
  rf_width :: real
  rf_height :: real

record QSizeF =
  sz_width :: real
  sz_height :: real

record QMargins =
  mg_left :: int
  mg_top :: int
  mg_right :: int
  mg_bottom :: int

record QMarginsF =
  mf_left :: real
  mf_top :: real
  mf_right :: real
  mf_bottom :: real

text \<open>The default-constructed \<open>QRect()\<close> is the null rectangle at the origin.\<close>

definition nullRect :: QRect where
  "nullRect = \<lparr>r_x = 0, r_y = 0, r_width = 0, r_height = 0\<rparr>"

definition toRectF :: "QRect \<Rightarrow> QRectF" where
  "toRectF r = \<lparr>rf_x = of_int (r_x r), rf_y = of_int (r_y r),
     rf_width = of_int (r_width r), rf_height = of_int (r_height r)\<rparr>"

definition adjusted :: "int \<Rightarrow> int \<Rightarrow> int \<Rightarrow> int \<Rightarrow> QRect \<Rightarrow> QRect" where
  "adjusted dx1 dy1 dx2 dy2 r =
     \<lparr>r_x = r_x r + dx1, r_y = r_y r + dy1,
      r_width = r_width r + dx2 - dx1, r_height = r_height r + dy2 - dy1\<rparr>"

definition adjust :: "real \<Rightarrow> real \<Rightarrow> real \<Rightarrow> real \<Rightarrow> QRectF \<Rightarrow> QRectF" where
  "adjust dx1 dy1 dx2 dy2 r =
     \<lparr>rf_x = rf_x r + dx1, rf_y = rf_y r + dy1,
      rf_width = rf_width r + dx2 - dx1, rf_height = rf_height r + dy2 - dy1\<rparr>"

definition setTop :: "real \<Rightarrow> QRectF \<Rightarrow> QRectF" where
  \<comment> \<open>moves the top edge and keeps the bottom edge\<close>
  "setTop pos r = r\<lparr>rf_y := pos, rf_height := rf_height r - (pos - rf_y r)\<rparr>"

definition setHeight :: "real \<Rightarrow> QRectF \<Rightarrow> QRectF" where
  "setHeight hh r = r\<lparr>rf_height := hh\<rparr>"

definition moveLeft :: "real \<Rightarrow> QRectF \<Rightarrow> QRectF" where
  "moveLeft pos r = r\<lparr>rf_x := pos\<rparr>"

definition left :: "QRectF \<Rightarrow> real" where
  "left r = rf_x r"

definition right :: "QRectF \<Rightarrow> real" where
  "right r = rf_x r + rf_width r"

definition marginsRemoved :: "QMargins \<Rightarrow> QRectF \<Rightarrow> QRectF" where
  "marginsRemoved m r =
     \<lparr>rf_x = rf_x r + of_int (mg_left m), rf_y = rf_y r + of_int (mg_top m),
      rf_width = rf_width r - of_int (mg_left m) - of_int (mg_right m),
      rf_height = rf_height r - of_int (mg_top m) - of_int (mg_bottom m)\<rparr>"

text \<open>\<open>QPainterPath\<close>: the sub-paths added since the last \<open>clear()\<close>, in order;
  \<open>intersected\<close> is kept symbolic.\<close>

datatype path_element =
    AddRect QRectF
  | AddRoundedRect QRectF real real
  | Intersected "path_element list" "path_element list"

type_synonym QPainterPath = "path_element list"

definition addRect :: "QRectF \<Rightarrow> QPainterPath \<Rightarrow> QPainterPath" where
  "addRect r p = p @ [AddRect r]"

definition addRoundedRect :: "QRectF \<Rightarrow> real \<Rightarrow> real \<Rightarrow> QPainterPath \<Rightarrow> QPainterPath" where
  "addRoundedRect r xr yr p = p @ [AddRoundedRect r xr yr]"

definition intersected :: "QPainterPath \<Rightarrow> QPainterPath \<Rightarrow> QPainterPath" where
  "intersected p q = [Intersected p q]"

section \<open>The animation object\<close>

text \<open>
  Each decoration and each button owns a \<open>QVariantAnimation\<close> running from 0.0 to 1.0.
  The model keeps what the source reads of it (its state) and what it sets (direction,
  duration), with the current time. \<open>setDirection\<close> and \<open>start\<close> are Qt's: they
  are parameters of the model. A call returns the animation and the values it hands to
  the \<open>valueChanged\<close> slot during the call, in order.
\<close>

datatype AnimState = Stopped | Paused | Running
datatype Direction = Forward | Backward

record animation =
  an_state :: AnimState
  an_direction :: Direction
  an_duration :: int
  an_currentTime :: int

record anim_api =
  setDirection :: "Direction \<Rightarrow> animation \<Rightarrow> animation \<times> real list"
  start :: "animation \<Rightarrow> animation \<times> real list"

section \<open>Settings, window and buttons\<close>

text \<open>The metrics of \<open>glass.h\<close> are not among the sources: they are parameters.\<close>

record metrics =
  TitleBar_TopMargin :: int
  TitleBar_BottomMargin :: int
  TitleBar_SideMargin :: int
  TitleBar_ButtonSpacing :: int
  PenWidth_Symbol :: real

text \<open>The two helpers of \<open>KDecoration3/ScaleHelpers\<close> are parameters as well.\<close>

record scale_helpers =
  snapToPixelGrid :: "real \<Rightarrow> real \<Rightarrow> real"
  pixelSize :: "real \<Rightarrow> real"

text \<open>The border size categories of \<open>InternalSettings\<close> and of
  \<open>KDecoration3::BorderSize\<close>. The last constructor of each stands for a value that
  no \<open>case\<close> label names.\<close>

datatype InternalBorderSize =
    BorderNone | BorderNoSides | BorderTiny | BorderNormal | BorderLarge
  | BorderVeryLarge | BorderHuge | BorderVeryHuge | BorderOversized
  | BorderUnmapped int

datatype BorderSize =
    BorderSize_None | BorderSize_NoSides | BorderSize_Tiny | BorderSize_Normal
  | BorderSize_Large | BorderSize_VeryLarge | BorderSize_Huge | BorderSize_VeryHuge
  | BorderSize_Oversized | BorderSize_Unmapped int

datatype ButtonSize =
    ButtonTiny | ButtonSmall | ButtonDefault | ButtonLarge | ButtonVeryLarge
  | ButtonUnmapped int

datatype TitleAlignment =
    AlignLeft | AlignCenter | AlignRight | AlignCenterFullWidth | AlignUnmapped int

record InternalSettings =
  mask_BorderSize :: bool
  is_borderSize :: InternalBorderSize
  is_buttonSize :: ButtonSize
  cornerRadius :: int
  animationsEnabled :: bool
  titleAlignment :: TitleAlignment
  outlineCloseButton :: bool

record DecorationSettings =
  smallSpacing :: int
  largeSpacing :: int
  gridUnit :: int
  fontHeight :: int
  isAlphaChannelSupported :: bool
  ds_borderSize :: BorderSize

record DecoratedWindow =
  isActive :: bool
  isShaded :: bool
  w_scale :: real
  w_nextScale :: real
  w_color :: "ColorGroup \<Rightarrow> ColorRole \<Rightarrow> color"
  captionTextRect :: QRect

datatype DecorationButtonType =
    Menu | ApplicationMenu | OnAllDesktops | Minimize | Maximize | Close
  | ContextHelp | Shade | KeepBelow | KeepAbove | Spacer

datatype ButtonFlag = FlagNone | FlagFirstInList

record Button =
  b_type :: DecorationButtonType
  isPressed :: bool
  isHovered :: bool
  isChecked :: bool
  preferredSize :: QSizeF
  b_geometry :: QRectF
  m_padding :: QMargins
  m_offset :: "real \<times> real"
  m_iconSize :: QSizeF
  m_flag :: ButtonFlag
  b_opacity :: real
  b_animation :: animation

text \<open>A button group: its buttons in order, and what the decoration sets of it. The
  width of its geometry is computed by KDecoration3 from the buttons and the spacing:
  \<open>updateButtonsGeometry\<close> takes that computation as a parameter.\<close>

record ButtonGroup =
  buttons :: "Button list"
  g_spacing :: real
  g_pos :: "real \<times> real"

text \<open>
  The decoration. \<open>hideTitleBar\<close>, \<open>isMaximized\<close>, the edge tests and the two
  border tests are inline functions of \<open>glassdecoration.h\<close>, which is not among the
  sources: the state carries their values. \<open>m_internalSettings\<close> is a shared pointer:
  \<open>None\<close> is the null pointer.
\<close>

record Decoration =
  window :: DecoratedWindow
  settings :: DecorationSettings
  m_internalSettings :: "InternalSettings option"
  hideTitleBar :: bool
  isMaximized :: bool
  isMaximizedHorizontally :: bool
  isMaximizedVertically :: bool
  isLeftEdge :: bool
  isRightEdge :: bool
  isTopEdge :: bool
  hasNoBorders :: bool
  hasNoSideBorders :: bool
  d_size :: QSizeF
  borders :: QMarginsF
  resizeOnlyBorders :: QMarginsF
  m_opacity :: real
  m_animation :: animation
  m_titleRect :: QRect
  m_titleBarPath :: QPainterPath
  m_windowPath :: QPainterPath
  m_leftButtons :: ButtonGroup
  m_rightButtons :: ButtonGroup

section \<open>Colours of the title bar and of the buttons\<close>

definition titleBarColor :: "mix_fn \<Rightarrow> Decoration \<Rightarrow> color" where
  "titleBarColor mix d =
     (let c = window d in
      if hideTitleBar d then w_color c Inactive TitleBar
      else if an_state (m_animation d) = Running then
        mix (w_color c Inactive TitleBar) (w_color c Active TitleBar) (m_opacity d)
      else w_color c (if isActive c then Active else Inactive) TitleBar)"

definition fontColor :: "Decoration \<Rightarrow> color" where
  "fontColor d =
     (let c = window d in w_color c (if isActive c then Active else Inactive) Foreground)"

text \<open>
  \<open>Button::foregroundColor\<close>. The button's decoration pointer may be null (first
  argument \<open>None\<close>). The result \<open>None\<close> stands for the dereference of a null
  \<open>m_internalSettings\<close>: the test of the close button reads the settings unguarded,
  after the short-circuit on the button's type.
\<close>

definition foregroundColor :: "mix_fn \<Rightarrow> Decoration option \<Rightarrow> Button \<Rightarrow> color option" where
  "foregroundColor mix dp b =
     (case dp of
        None \<Rightarrow> Some Invalid
      | Some d \<Rightarrow>
          if isPressed b then Some (titleBarColor mix d)
          else
            (case (if b_type b = Close
                   then map_option outlineCloseButton (m_internalSettings d)
                   else Some False) of
               None \<Rightarrow> None
             | Some closeOutlined \<Rightarrow>
                 if closeOutlined then Some (titleBarColor mix d)
                 else if (b_type b = KeepBelow \<or> b_type b = KeepAbove \<or> b_type b = Shade)
                         \<and> isChecked b then Some (titleBarColor mix d)
                 else if an_state (b_animation b) = Running then
                   Some (mix (fontColor d) (titleBarColor mix d) (b_opacity b))
                 else if isHovered b then Some (titleBarColor mix d)
                 else Some (fontColor d)))"

definition backgroundColor :: "mix_fn \<Rightarrow> Decoration option \<Rightarrow> Button \<Rightarrow> color" where
  "backgroundColor mix dp b =
     (case dp of
        None \<Rightarrow> Invalid
      | Some d \<Rightarrow>
          let c = window d in
          if isActive c then
            (if isPressed b then
               (case b_type b of
                  Close \<Rightarrow> Red
                | Minimize \<Rightarrow> Yellow
                | Maximize \<Rightarrow> Green
                | _ \<Rightarrow> mix (titleBarColor mix d) (fontColor d) (3 / 10))
             else
               (let alpha = (if isHovered b then 192 else 128) in
                case b_type b of
                  Close \<Rightarrow> setAlpha alpha Red
                | Minimize \<Rightarrow> setAlpha alpha Yellow
                | Maximize \<Rightarrow> setAlpha alpha Green
                | _ \<Rightarrow> Invalid))
          else
            (let color = setAlpha 128 LightGray in
             case b_type b of
               Close \<Rightarrow> color
             | Minimize \<Rightarrow> color
             | Maximize \<Rightarrow> color
             | _ \<Rightarrow> Invalid))"

section \<open>Borders\<close>

text \<open>
  \<open>Decoration::borderSize\<close>. The internal settings decide when they are set and their
  mask holds \<open>BorderSize\<close>; the host's category decides otherwise. In both switches
  the \<open>default\<close> label stands on the \<open>Tiny\<close> case.
\<close>

definition borderBaseSize :: "scale_helpers \<Rightarrow> Decoration \<Rightarrow> real \<Rightarrow> real" where
  \<comment> \<open>the local \<open>baseSize\<close> of \<open>borderSize\<close>\<close>
  "borderBaseSize k d scale =
     (let pxSize = pixelSize k scale
      in max pxSize (snapToPixelGrid k (of_int (smallSpacing (settings d))) scale))"

definition borderSize :: "scale_helpers \<Rightarrow> Decoration \<Rightarrow> bool \<Rightarrow> real \<Rightarrow> real" where
  "borderSize k d bottom scale =
     (let baseSize = borderBaseSize k d scale;
          tiny = (if bottom then snapToPixelGrid k (max 4 baseSize) scale else baseSize);
          noSides = (if bottom then snapToPixelGrid k (max 4 baseSize) scale else 0);
          host =
            (case ds_borderSize (settings d) of
               BorderSize_None \<Rightarrow> 0
             | BorderSize_NoSides \<Rightarrow> noSides
             | BorderSize_Tiny \<Rightarrow> tiny
             | BorderSize_Normal \<Rightarrow> baseSize * 2
             | BorderSize_Large \<Rightarrow> baseSize * 3
             | BorderSize_VeryLarge \<Rightarrow> baseSize * 4
             | BorderSize_Huge \<Rightarrow> baseSize * 5
             | BorderSize_VeryHuge \<Rightarrow> baseSize * 6
             | BorderSize_Oversized \<Rightarrow> baseSize * 10
             | BorderSize_Unmapped v \<Rightarrow> tiny)
      in case m_internalSettings d of
           None \<Rightarrow> host
         | Some s \<Rightarrow>
             if mask_BorderSize s then
               (case is_borderSize s of
                  BorderNone \<Rightarrow> 0
                | BorderNoSides \<Rightarrow> noSides
                | BorderTiny \<Rightarrow> tiny
                | BorderNormal \<Rightarrow> baseSize * 2
                | BorderLarge \<Rightarrow> baseSize * 3
                | BorderVeryLarge \<Rightarrow> baseSize * 4
                | BorderHuge \<Rightarrow> baseSize * 5
                | BorderVeryHuge \<Rightarrow> baseSize * 6
                | BorderOversized \<Rightarrow> baseSize * 10
                | BorderUnmapped v \<Rightarrow> tiny)
             else host)"

text \<open>
  \<open>Decoration::buttonSize\<close> reads \<open>m_internalSettings\<close> unguarded: \<open>None\<close> is the
  dereference of the null pointer. The products with 1.5, 2.5 and 3.5 are truncated to
  \<open>int\<close> on return.
\<close>

definition buttonSize :: "Decoration \<Rightarrow> int option" where
  "buttonSize d =
     (let baseSize = gridUnit (settings d) in
      case m_internalSettings d of
        None \<Rightarrow> None
      | Some s \<Rightarrow>
          Some (case is_buttonSize s of
                  ButtonTiny \<Rightarrow> baseSize
                | ButtonSmall \<Rightarrow> toInt (of_int baseSize * (3 / 2))
                | ButtonDefault \<Rightarrow> baseSize * 2
                | ButtonLarge \<Rightarrow> toInt (of_int baseSize * (5 / 2))
                | ButtonVeryLarge \<Rightarrow> toInt (of_int baseSize * (7 / 2))
                | ButtonUnmapped v \<Rightarrow> baseSize * 2))"

definition borderTop :: "Decoration \<Rightarrow> real" where
  "borderTop d = mf_top (borders d)"

definition borderLeft :: "Decoration \<Rightarrow> real" where
  "borderLeft d = mf_left (borders d)"

definition borderRight :: "Decoration \<Rightarrow> real" where
  "borderRight d = mf_right (borders d)"

definition captionHeight :: "Decoration \<Rightarrow> int option" where
  "captionHeight d = (if hideTitleBar d then Some (toInt (borderTop d)) else buttonSize d)"

text \<open>
  \<open>Decoration::recalculateBorders\<close>: \<open>setBorders\<close> and \<open>setResizeOnlyBorders\<close> store
  the margins. The signals they emit are the host's to deliver and are not modelled.
\<close>

definition recalculateBorders :: "scale_helpers \<Rightarrow> metrics \<Rightarrow> Decoration \<Rightarrow> Decoration option" where
  "recalculateBorders k m d =
     (let c = window d;
          s = settings d;
          scale = w_nextScale c;
          leftB = borderSize k d False scale;
          rightB = borderSize k d False scale;
          bottomB = borderSize k d True scale
      in case (if hideTitleBar d then Some bottomB
               else
                 (case buttonSize d of
                    None \<Rightarrow> None
                  | Some bs \<Rightarrow>
                      (let top1 = 0 + snapToPixelGrid k (of_int (max (fontHeight s) bs)) scale;
                           baseSize = smallSpacing s * 2
                       in Some (top1 + snapToPixelGrid k
                                  (of_int (baseSize * TitleBar_BottomMargin m)) scale)))) of
           None \<Rightarrow> None
         | Some topB \<Rightarrow>
             (let d1 = d\<lparr>borders :=
                         \<lparr>mf_left = leftB, mf_top = topB, mf_right = rightB, mf_bottom = bottomB\<rparr>\<rparr>;
                  extSize = snapToPixelGrid k (of_int (largeSpacing (settings d1)))
                              (w_nextScale (window d1));
                  extSides =
                    (if hasNoBorders d1 then (if \<not> isMaximizedHorizontally d1 then extSize else 0)
                     else if hasNoSideBorders d1 \<and> \<not> isMaximizedHorizontally d1 then extSize
                     else 0);
                  extBottom =
                    (if hasNoBorders d1 \<and> \<not> isMaximizedVertically d1 then extSize else 0)
              in Some (d1\<lparr>resizeOnlyBorders :=
                         \<lparr>mf_left = extSides, mf_top = 0, mf_right = extSides,
                          mf_bottom = extBottom\<rparr>\<rparr>)))"

section \<open>Outlines of the window and of the title bar\<close>

definition rect :: "Decoration \<Rightarrow> QRectF" where
  "rect d = \<lparr>rf_x = 0, rf_y = 0, rf_width = sz_width (d_size d),
              rf_height = sz_height (d_size d)\<rparr>"

text \<open>The first half of \<open>calculateWindowAndTitleBarShapes\<close>: the title rectangle and
  the path of the title bar. The corner radius is read in the two rounded branches only.\<close>

definition calculateTitleBarShape :: "Decoration \<Rightarrow> Decoration option" where
  "calculateTitleBarShape d =
     (let c = window d;
          s = settings d;
          titleRect = \<lparr>r_x = 0, r_y = 0, r_width = toInt (sz_width (d_size d)),
                       r_height = toInt (borderTop d)\<rparr>;
          d1 = d\<lparr>m_titleRect := titleRect, m_titleBarPath := []\<rparr>
      in if isMaximized d1 \<or> \<not> isAlphaChannelSupported s then
           Some (d1\<lparr>m_titleBarPath := addRect (toRectF titleRect) (m_titleBarPath d1)\<rparr>)
         else
           (case m_internalSettings d1 of
              None \<Rightarrow> None
            | Some i \<Rightarrow>
                if isShaded c then
                  Some (d1\<lparr>m_titleBarPath :=
                          addRoundedRect (toRectF titleRect) (of_int (cornerRadius i))
                            (of_int (cornerRadius i)) (m_titleBarPath d1)\<rparr>)
                else
                  (let clipRect = addRect (toRectF titleRect) [];
                       grown = adjusted (if isLeftEdge d1 then - cornerRadius i else 0)
                                 (if isTopEdge d1 then - cornerRadius i else 0)
                                 (if isRightEdge d1 then cornerRadius i else 0)
                                 (cornerRadius i) titleRect;
                       rounded = addRoundedRect (toRectF grown) (of_int (cornerRadius i))
                                   (of_int (cornerRadius i)) (m_titleBarPath d1)
                   in Some (d1\<lparr>m_titleBarPath := intersected rounded clipRect\<rparr>))))"

definition calculateWindowAndTitleBarShapes :: "bool \<Rightarrow> Decoration \<Rightarrow> Decoration option" where
  "calculateWindowAndTitleBarShapes windowShapeOnly d =
     (let c = window d;
          s = settings d
      in case (if \<not> windowShapeOnly \<or> isShaded c then calculateTitleBarShape d else Some d) of
           None \<Rightarrow> None
         | Some d2 \<Rightarrow>
             (let d3 = d2\<lparr>m_windowPath := []\<rparr> in
              if \<not> isShaded c then
                (if isAlphaChannelSupported s \<and> \<not> isMaximized d3 then
                   (case m_internalSettings d3 of
                      None \<Rightarrow> None
                    | Some i \<Rightarrow>
                        Some (d3\<lparr>m_windowPath :=
                                addRoundedRect (rect d3) (of_int (cornerRadius i))
                                  (of_int (cornerRadius i)) (m_windowPath d3)\<rparr>))
                 else Some (d3\<lparr>m_windowPath := addRect (rect d3) (m_windowPath d3)\<rparr>))
              else Some (d3\<lparr>m_windowPath := m_titleBarPath d3\<rparr>)))"

section \<open>The caption\<close>

datatype AlignmentFlag = Qt_AlignLeft | Qt_AlignRight | Qt_AlignHCenter | Qt_AlignVCenter

type_synonym Alignment = "AlignmentFlag set"

definition Qt_AlignCenter :: Alignment where
  "Qt_AlignCenter = {Qt_AlignVCenter, Qt_AlignHCenter}"

text \<open>
  \<open>Decoration::captionRect\<close>. The geometry of a button group is laid out by
  KDecoration3: \<open>groupGeometry\<close> is that computation. The locals of the source are
  definitions of their own, under the names the source gives them.
\<close>

definition leftOffset :: "scale_helpers \<Rightarrow> metrics \<Rightarrow> (ButtonGroup \<Rightarrow> QRectF) \<Rightarrow> Decoration \<Rightarrow> real" where
  "leftOffset k m groupGeometry d =
     snapToPixelGrid k
       (if buttons (m_leftButtons d) = []
        then of_int (TitleBar_SideMargin m * smallSpacing (settings d))
        else rf_x (groupGeometry (m_leftButtons d)) + rf_width (groupGeometry (m_leftButtons d))
             + of_int (TitleBar_SideMargin m * smallSpacing (settings d)))
       (w_scale (window d))"

definition rightOffset :: "scale_helpers \<Rightarrow> metrics \<Rightarrow> (ButtonGroup \<Rightarrow> QRectF) \<Rightarrow> Decoration \<Rightarrow> real" where
  "rightOffset k m groupGeometry d =
     snapToPixelGrid k
       (if buttons (m_rightButtons d) = []
        then of_int (TitleBar_SideMargin m * smallSpacing (settings d))
        else sz_width (d_size d) - rf_x (groupGeometry (m_rightButtons d))
             + of_int (TitleBar_SideMargin m * smallSpacing (settings d)))
       (w_scale (window d))"

definition yOffset :: "scale_helpers \<Rightarrow> metrics \<Rightarrow> Decoration \<Rightarrow> real" where
  "yOffset k m d =
     snapToPixelGrid k (of_int (smallSpacing (settings d) * TitleBar_TopMargin m))
       (w_scale (window d))"

definition maxRect ::
  "scale_helpers \<Rightarrow> metrics \<Rightarrow> (ButtonGroup \<Rightarrow> QRectF) \<Rightarrow> Decoration \<Rightarrow> int \<Rightarrow> QRectF" where
  "maxRect k m groupGeometry d ch =
     \<lparr>rf_x = leftOffset k m groupGeometry d, rf_y = yOffset k m d,
      rf_width = sz_width (d_size d) - leftOffset k m groupGeometry d
                 - rightOffset k m groupGeometry d,
      rf_height = of_int ch\<rparr>"

text \<open>The full caption rectangle is built as a \<open>QRect\<close>: its top and its width are
  truncated to integers.\<close>

definition fullRect :: "scale_helpers \<Rightarrow> metrics \<Rightarrow> Decoration \<Rightarrow> int \<Rightarrow> QRectF" where
  "fullRect k m d ch =
     toRectF \<lparr>r_x = 0, r_y = toInt (yOffset k m d), r_width = toInt (sz_width (d_size d)),
              r_height = ch\<rparr>"

text \<open>The bounding rectangle of the caption's text in the title font, moved to where
  centred text would land.\<close>

definition boundingRect :: "scale_helpers \<Rightarrow> metrics \<Rightarrow> Decoration \<Rightarrow> int \<Rightarrow> QRectF" where
  "boundingRect k m d ch =
     (let r0 = toRectF (captionTextRect (window d));
          r1 = setTop (yOffset k m d) r0;
          r2 = setHeight (of_int ch) r1
      in moveLeft ((sz_width (d_size d) - rf_width r2) / 2) r2)"

definition captionRect ::
  "scale_helpers \<Rightarrow> metrics \<Rightarrow> (ButtonGroup \<Rightarrow> QRectF) \<Rightarrow> Decoration \<Rightarrow> (QRectF \<times> Alignment) option" where
  "captionRect k m groupGeometry d =
     (if hideTitleBar d then Some (toRectF nullRect, Qt_AlignCenter)
      else
        (case captionHeight d of
           None \<Rightarrow> None
         | Some ch \<Rightarrow>
             (let fullWidth =
                    (if left (boundingRect k m d ch) < leftOffset k m groupGeometry d then
                       (maxRect k m groupGeometry d ch, {Qt_AlignVCenter, Qt_AlignLeft})
                     else if right (boundingRect k m d ch)
                             > sz_width (d_size d) - rightOffset k m groupGeometry d then
                       (maxRect k m groupGeometry d ch, {Qt_AlignVCenter, Qt_AlignRight})
                     else (fullRect k m d ch, Qt_AlignCenter))
              in case m_internalSettings d of
                   None \<Rightarrow> None
                 | Some i \<Rightarrow>
                     Some (case titleAlignment i of
                             AlignLeft \<Rightarrow>
                               (maxRect k m groupGeometry d ch, {Qt_AlignVCenter, Qt_AlignLeft})
                           | AlignRight \<Rightarrow>
                               (maxRect k m groupGeometry d ch, {Qt_AlignVCenter, Qt_AlignRight})
                           | AlignCenter \<Rightarrow> (maxRect k m groupGeometry d ch, Qt_AlignCenter)
                           | AlignCenterFullWidth \<Rightarrow> fullWidth
                           | AlignUnmapped v \<Rightarrow> fullWidth))))"

section \<open>Animation of the active state and of the hover state\<close>

definition setOpacity :: "real \<Rightarrow> Decoration \<Rightarrow> Decoration" where
  "setOpacity v d = (if m_opacity d = v then d else d\<lparr>m_opacity := v\<rparr>)"

text \<open>
  \<open>Decoration::updateAnimationState\<close>. The values the animation emits during
  \<open>setDirection\<close> and \<open>start\<close> reach \<open>setOpacity\<close> through the connection made in
  \<open>init\<close>. \<open>update()\<close> asks the host for a repaint and changes nothing of the state.
\<close>

definition Decoration_updateAnimationState :: "anim_api \<Rightarrow> Decoration \<Rightarrow> Decoration option" where
  "Decoration_updateAnimationState api d =
     (case m_internalSettings d of
        None \<Rightarrow> None
      | Some i \<Rightarrow>
          if animationsEnabled i then
            (let c = window d;
                 (a1, vs1) = setDirection api (if isActive c then Forward else Backward)
                               (m_animation d);
                 d1 = fold setOpacity vs1 (d\<lparr>m_animation := a1\<rparr>)
             in if an_state (m_animation d1) \<noteq> Running then
                  (let (a2, vs2) = start api (m_animation d1)
                   in Some (fold setOpacity vs2 (d1\<lparr>m_animation := a2\<rparr>)))
                else Some d1)
          else Some d)"

text \<open>
  \<open>Button::updateAnimationState\<close>. \<open>Button::setOpacity\<close> is declared in
  \<open>glassbutton.h\<close>, which is not among the sources: it is the parameter \<open>setOp\<close>.
\<close>

definition Button_updateAnimationState ::
  "anim_api \<Rightarrow> (real \<Rightarrow> Button \<Rightarrow> Button) \<Rightarrow> Decoration option \<Rightarrow> bool \<Rightarrow> Button \<Rightarrow> Button option" where
  "Button_updateAnimationState api setOp dp hovered b =
     (case dp of
        None \<Rightarrow> Some b
      | Some d \<Rightarrow>
          (case m_internalSettings d of
             None \<Rightarrow> None
           | Some i \<Rightarrow>
               if \<not> animationsEnabled i then Some b
               else
                 (let (a1, vs1) = setDirection api (if hovered then Forward else Backward)
                                    (b_animation b);
                      b1 = fold setOp vs1 (b\<lparr>b_animation := a1\<rparr>)
                  in if an_state (b_animation b1) \<noteq> Running then
                       (let (a2, vs2) = start api (b_animation b1)
                        in Some (fold setOp vs2 (b1\<lparr>b_animation := a2\<rparr>)))
                     else Some b1)))"

section \<open>Layout of the button groups\<close>

text \<open>The body of the first loop of \<open>updateButtonsGeometry\<close>, for one button. The
  icon size is set from height and width in that order, as the source has it.\<close>

definition layoutButton :: "metrics \<Rightarrow> Decoration \<Rightarrow> Button \<Rightarrow> Button" where
  "layoutButton m d btn =
     (let s = settings d;
          verticalOffset = (if isTopEdge d then smallSpacing s * TitleBar_TopMargin m else 0);
          bHeight = toInt (sz_height (preferredSize btn) + of_int verticalOffset);
          bWidth = toInt (sz_width (preferredSize btn))
      in btn\<lparr>b_geometry := \<lparr>rf_x = 0, rf_y = 0, rf_width = of_int bWidth,
                               rf_height = of_int bHeight\<rparr>,
              m_padding := \<lparr>mg_left = 0, mg_top = verticalOffset, mg_right = 0, mg_bottom = 0\<rparr>,
              m_offset := (0, of_int verticalOffset),
              m_iconSize := \<lparr>sz_width = of_int bHeight, sz_height = of_int bWidth\<rparr>\<rparr>)"

text \<open>What the source does to the button at the window's edge: the first of the left
  group (\<open>pad_left = True\<close>), the last of the right group.\<close>

definition edgeButton :: "bool \<Rightarrow> int \<Rightarrow> Button \<Rightarrow> Button" where
  "edgeButton pad_left hPadding button =
     (let geometry = (if pad_left then adjust (- of_int hPadding) 0 0 0 (b_geometry button)
                      else adjust 0 0 (of_int hPadding) 0 (b_geometry button))
      in button\<lparr>b_geometry := geometry,
                 m_flag := FlagFirstInList,
                 m_padding := (if pad_left then (m_padding button)\<lparr>mg_left := hPadding\<rparr>
                               else (m_padding button)\<lparr>mg_right := hPadding\<rparr>),
                 m_iconSize := preferredSize button\<rparr>)"

definition updateLeftButtons :: "metrics \<Rightarrow> Decoration \<Rightarrow> Decoration" where
  "updateLeftButtons m d =
     (case buttons (m_leftButtons d) of
        [] \<Rightarrow> d
      | front # others \<Rightarrow>
          (let s = settings d;
               g = (m_leftButtons d)\<lparr>g_spacing := of_int (smallSpacing s * TitleBar_ButtonSpacing m)\<rparr>;
               vPadding = (if isTopEdge d then 0 else smallSpacing s * TitleBar_TopMargin m);
               hPadding = smallSpacing s * TitleBar_SideMargin m
           in if isLeftEdge d then
                d\<lparr>m_leftButtons :=
                    g\<lparr>buttons := edgeButton True hPadding front # others,
                      g_pos := (0, of_int vPadding)\<rparr>\<rparr>
              else
                d\<lparr>m_leftButtons :=
                    g\<lparr>g_pos := (of_int hPadding + borderLeft d, of_int vPadding)\<rparr>\<rparr>))"

definition updateRightButtons :: "metrics \<Rightarrow> (ButtonGroup \<Rightarrow> QRectF) \<Rightarrow> Decoration \<Rightarrow> Decoration" where
  "updateRightButtons m groupGeometry d =
     (if buttons (m_rightButtons d) = [] then d
      else
        (let s = settings d;
             g = (m_rightButtons d)\<lparr>g_spacing := of_int (smallSpacing s * TitleBar_ButtonSpacing m)\<rparr>;
             vPadding = (if isTopEdge d then 0 else smallSpacing s * TitleBar_TopMargin m);
             hPadding = smallSpacing s * TitleBar_SideMargin m
         in if isRightEdge d then
              (let g1 = g\<lparr>buttons := butlast (buttons g) @ [edgeButton False hPadding (last (buttons g))]\<rparr>
               in d\<lparr>m_rightButtons :=
                      g1\<lparr>g_pos := (sz_width (d_size d) - rf_width (groupGeometry g1),
                                   of_int vPadding)\<rparr>\<rparr>)
            else
              d\<lparr>m_rightButtons :=
                  g\<lparr>g_pos := (sz_width (d_size d) - rf_width (groupGeometry g)
                                 - of_int hPadding - borderRight d,
                               of_int vPadding)\<rparr>\<rparr>))"

definition updateButtonsGeometry :: "metrics \<Rightarrow> (ButtonGroup \<Rightarrow> QRectF) \<Rightarrow> Decoration \<Rightarrow> Decoration" where
  "updateButtonsGeometry m groupGeometry d =
     (let d1 = d\<lparr>m_leftButtons :=
                   (m_leftButtons d)\<lparr>buttons := map (layoutButton m d) (buttons (m_leftButtons d))\<rparr>,
                 m_rightButtons :=
                   (m_rightButtons d)\<lparr>buttons := map (layoutButton m d) (buttons (m_rightButtons d))\<rparr>\<rparr>
      in updateRightButtons m groupGeometry (updateLeftButtons m d1))"

section \<open>Drawing a button\<close>

text \<open>
  The painter: the render hint, the transformations applied so far, the current pen
  and brush (\<open>None\<close> is \<open>Qt::NoPen\<close>, \<open>Qt::NoBrush\<close>) and the shapes drawn so far,
  each with the pen and the brush it was drawn with.
\<close>

datatype PenCapStyle = FlatCap | SquareCap | RoundCap
datatype PenJoinStyle = MiterJoin | BevelJoin | RoundJoin

text \<open>The width of a pen is a \<open>qreal\<close>: \<open>None\<close> is a width that is not finite.\<close>

record QPen =
  pen_color :: color
  pen_capStyle :: PenCapStyle
  pen_joinStyle :: PenJoinStyle
  pen_widthF :: "real option"

type_synonym QPointF = "real \<times> real"

datatype PathStep =
    MoveTo real real
  | ArcTo QRectF real real
  | CubicTo QPointF QPointF QPointF

datatype Shape =
    Ellipse QRectF
  | Line QPointF QPointF
  | Polyline "QPointF list"
  | Polygon "QPointF list"
  | Rect QRectF
  | Path "PathStep list"

datatype Transform = Translate real real | Scale real real

record QPainter =
  antialiasing :: bool
  transforms :: "Transform list"
  p_pen :: "QPen option"
  p_brush :: "color option"
  drawn :: "(QPen option \<times> color option \<times> Shape) list"

definition draw :: "Shape \<Rightarrow> QPainter \<Rightarrow> QPainter" where
  "draw sh p = p\<lparr>drawn := drawn p @ [(p_pen p, p_brush p, sh)]\<rparr>"

definition QRectF_of :: "real \<Rightarrow> real \<Rightarrow> real \<Rightarrow> real \<Rightarrow> QRectF" where
  "QRectF_of x y wd ht = \<lparr>rf_x = x, rf_y = y, rf_width = wd, rf_height = ht\<rparr>"

text \<open>The block \<open>render background\<close> of \<open>Button::drawIcon\<close>.\<close>

definition renderBackground :: "mix_fn \<Rightarrow> Decoration option \<Rightarrow> Button \<Rightarrow> QPainter \<Rightarrow> QPainter" where
  "renderBackground mix dp b p =
     (let bg = backgroundColor mix dp b in
      if isValid bg then draw (Ellipse (QRectF_of 0 0 36 36)) (p\<lparr>p_pen := None, p_brush := Some bg\<rparr>)
      else p)"

text \<open>
  The block \<open>render mark\<close>, entered with a valid foreground colour. The branches of
  \<open>Close\<close>, \<open>Maximize\<close> and \<open>Minimize\<close> hold comments only. At width 0 the
  quotient \<open>40 / width\<close> of the source is infinite, and so is the width of the pen:
  the model gives the pen the width \<open>None\<close> there.
\<close>

definition renderMark ::
  "mix_fn \<Rightarrow> metrics \<Rightarrow> Decoration option \<Rightarrow> Button \<Rightarrow> real \<Rightarrow> color \<Rightarrow> QPainter \<Rightarrow> QPainter" where
  "renderMark mix m dp b width fg p =
     (let pen = \<lparr>pen_color = fg, pen_capStyle = RoundCap, pen_joinStyle = MiterJoin,
                 pen_widthF = (if width = 0 then None
                               else Some (PenWidth_Symbol m * max 1 (40 / width)))\<rparr>;
          p1 = p\<lparr>p_pen := Some pen, p_brush := None\<rparr>
      in case b_type b of
           Close \<Rightarrow> p1
         | Maximize \<Rightarrow> p1
         | Minimize \<Rightarrow> p1
         | OnAllDesktops \<Rightarrow>
             (let p2 = p1\<lparr>p_pen := None, p_brush := Some fg\<rparr> in
              if isChecked b then
                (let p3 = draw (Ellipse (QRectF_of 6 6 24 24)) p2;
                     bg0 = backgroundColor mix dp b;
                     bg = (case dp of
                             None \<Rightarrow> bg0
                           | Some d \<Rightarrow> if \<not> isValid bg0 then titleBarColor mix d else bg0)
                 in if isValid bg then
                      draw (Ellipse (QRectF_of 16 16 4 4)) (p3\<lparr>p_brush := Some bg\<rparr>)
                    else p3)
              else
                (let p3 = draw (Polygon [(13, 13), (24, 6), (30, 12), (19, 22)]) p2;
                     p4 = p3\<lparr>p_pen := Some pen\<rparr>;
                     p5 = draw (Line (11, 15) (21, 25)) p4
                 in draw (Line (24, 12) (9, 27)) p5))
         | Shade \<Rightarrow>
             (if isChecked b then
                draw (Polyline [(8, 16), (18, 26), (28, 16)]) (draw (Line (8, 11) (28, 11)) p1)
              else
                draw (Polyline [(8, 26), (18, 16), (28, 26)]) (draw (Line (8, 11) (28, 11)) p1))
         | KeepBelow \<Rightarrow>
             draw (Polyline [(8, 18), (18, 28), (28, 18)])
               (draw (Polyline [(8, 10), (18, 20), (28, 10)]) p1)
         | KeepAbove \<Rightarrow>
             draw (Polyline [(8, 26), (18, 16), (28, 26)])
               (draw (Polyline [(8, 18), (18, 8), (28, 18)]) p1)
         | ApplicationMenu \<Rightarrow>
             draw (Rect (QRectF_of 7 25 22 2))
               (draw (Rect (QRectF_of 7 17 22 2)) (draw (Rect (QRectF_of 7 9 22 2)) p1))
         | ContextHelp \<Rightarrow>
             (let path = [MoveTo 10 12, ArcTo (QRectF_of 10 7 16 10) 180 (- 180),
                          CubicTo (25, 19) (18, 15) (18, 23)]
              in draw (Rect (QRectF_of 18 30 1 1)) (draw (Path path) p1))
         | Menu \<Rightarrow> p1
         | Spacer \<Rightarrow> p1)"

text \<open>\<open>Button::drawIcon\<close>. \<open>None\<close> is handed on from \<open>foregroundColor\<close>.\<close>

definition drawIcon ::
  "mix_fn \<Rightarrow> metrics \<Rightarrow> Decoration option \<Rightarrow> Button \<Rightarrow> QPainter \<Rightarrow> QPainter option" where
  "drawIcon mix m dp b painter =
     (let p1 = painter\<lparr>antialiasing := True\<rparr>;
          rect = marginsRemoved (m_padding b) (b_geometry b);
          width = rf_width rect;
          p2 = p1\<lparr>transforms := transforms p1 @ [Translate (rf_x rect) (rf_y rect)]\<rparr>;
          p3 = p2\<lparr>transforms := transforms p2 @ [Scale (width / 40) (width / 40)]\<rparr>;
          p4 = renderBackground mix dp b p3
      in case foregroundColor mix dp b of
           None \<Rightarrow> None
         | Some fg \<Rightarrow> Some (if isValid fg then renderMark mix m dp b width fg p4 else p4))"

section \<open>A concrete configuration\<close>

text \<open>
  The parameters at concrete values, to run the model: snapping rounds to the nearest
  device pixel, a group is as wide as its buttons and the spacing between them, a mix
  blends each channel linearly, and the animation object rewinds when it is started
  from rest and keeps its current time when its direction is set while it runs.
\<close>

definition sample_helpers :: scale_helpers where
  "sample_helpers =
     \<lparr>snapToPixelGrid = (\<lambda>v sc. of_int (round (v * sc)) / sc), pixelSize = (\<lambda>sc. 1 / sc)\<rparr>"

definition sample_metrics :: metrics where
  "sample_metrics =
     \<lparr>TitleBar_TopMargin = 2, TitleBar_BottomMargin = 2, TitleBar_SideMargin = 2,
      TitleBar_ButtonSpacing = 2, PenWidth_Symbol = 101 / 100\<rparr>"

definition blend :: "nat \<Rightarrow> nat \<Rightarrow> real \<Rightarrow> nat" where
  "blend a b t = nat \<lfloor>of_nat a + (of_nat b - of_nat a) * t\<rfloor>"

fun sample_mix :: mix_fn where
  "sample_mix (Rgba r1 g1 b1 a1) (Rgba r2 g2 b2 a2) t =
     Rgba (blend r1 r2 t) (blend g1 g2 t) (blend b1 b2 t) (blend a1 a2 t)"
| "sample_mix c1 c2 t = Invalid"

definition sample_groupGeometry :: "ButtonGroup \<Rightarrow> QRectF" where
  "sample_groupGeometry g =
     \<lparr>rf_x = fst (g_pos g), rf_y = snd (g_pos g),
      rf_width = sum_list (map (\<lambda>b. rf_width (b_geometry b)) (buttons g))
                 + g_spacing g * of_nat (length (buttons g) - 1),
      rf_height = fold max (map (\<lambda>b. rf_height (b_geometry b)) (buttons g)) 0\<rparr>"

definition sample_api :: anim_api where
  "sample_api =
     \<lparr>setDirection = (\<lambda>dir a.
        if an_direction a = dir then (a, [])
        else if an_state a = Stopped then
          (a\<lparr>an_direction := dir,
             an_currentTime := (if dir = Backward then an_duration a else 0)\<rparr>, [])
        else (a\<lparr>an_direction := dir\<rparr>, [])),
      start = (\<lambda>a.
        if an_state a = Running then (a, [])
        else if an_direction a = Forward then
          (a\<lparr>an_state := Running, an_currentTime := 0\<rparr>, [0])
        else (a\<lparr>an_state := Running, an_currentTime := an_duration a\<rparr>, [1]))\<rparr>"

definition sample_setOp :: "real \<Rightarrow> Button \<Rightarrow> Button" where
  "sample_setOp v b = (if b_opacity b = v then b else b\<lparr>b_opacity := v\<rparr>)"

definition sample_animation :: animation where
  "sample_animation =
     \<lparr>an_state = Stopped, an_direction = Forward, an_duration = 150, an_currentTime = 0\<rparr>"

definition sample_colors :: "ColorGroup \<Rightarrow> ColorRole \<Rightarrow> color" where
  "sample_colors g r =
     (case (g, r) of
        (Active, TitleBar) \<Rightarrow> Rgba 40 40 40 255
      | (Inactive, TitleBar) \<Rightarrow> Rgba 200 200 200 255
      | (Active, Foreground) \<Rightarrow> Rgba 250 250 250 255
      | (Inactive, Foreground) \<Rightarrow> Rgba 100 100 100 255)"

definition sample_window :: DecoratedWindow where
  "sample_window =
     \<lparr>isActive = True, isShaded = False, w_scale = 1, w_nextScale = 1,
      w_color = sample_colors,
      captionTextRect = \<lparr>r_x = 0, r_y = - 12, r_width = 60, r_height = 16\<rparr>\<rparr>"

definition sample_settings :: DecorationSettings where
  "sample_settings =
     \<lparr>smallSpacing = 4, largeSpacing = 8, gridUnit = 18, fontHeight = 17,
      isAlphaChannelSupported = True, ds_borderSize = BorderSize_Normal\<rparr>"

definition sample_internal :: InternalSettings where
  "sample_internal =
     \<lparr>mask_BorderSize = True, is_borderSize = BorderNormal, is_buttonSize = ButtonDefault,
      cornerRadius = 6, animationsEnabled = True, titleAlignment = AlignCenterFullWidth,
      outlineCloseButton = False\<rparr>"

definition sample_button :: "DecorationButtonType \<Rightarrow> Button" where
  "sample_button t =
     \<lparr>b_type = t, isPressed = False, isHovered = False, isChecked = False,
      preferredSize = \<lparr>sz_width = 36, sz_height = 36\<rparr>,
      b_geometry = \<lparr>rf_x = 0, rf_y = 0, rf_width = 36, rf_height = 36\<rparr>,
      m_padding = \<lparr>mg_left = 0, mg_top = 0, mg_right = 0, mg_bottom = 0\<rparr>,
      m_offset = (0, 0),
      m_iconSize = \<lparr>sz_width = 36, sz_height = 36\<rparr>,
      m_flag = FlagNone, b_opacity = 0, b_animation = sample_animation\<rparr>"

definition sample_decoration :: Decoration where
  "sample_decoration =
     \<lparr>window = sample_window, settings = sample_settings,
      m_internalSettings = Some sample_internal,
      hideTitleBar = False, isMaximized = False, isMaximizedHorizontally = False,
      isMaximizedVertically = False, isLeftEdge = False, isRightEdge = False,
      isTopEdge = False, hasNoBorders = False, hasNoSideBorders = False,
      d_size = \<lparr>sz_width = 400, sz_height = 300\<rparr>,
      borders = \<lparr>mf_left = 8, mf_top = 44, mf_right = 8, mf_bottom = 8\<rparr>,
      resizeOnlyBorders = \<lparr>mf_left = 0, mf_top = 0, mf_right = 0, mf_bottom = 0\<rparr>,
      m_opacity = 1, m_animation = sample_animation,
      m_titleRect = nullRect, m_titleBarPath = [], m_windowPath = [],
      m_leftButtons = \<lparr>buttons = [sample_button Menu], g_spacing = 8, g_pos = (16, 8)\<rparr>,
      m_rightButtons =
        \<lparr>buttons = [sample_button Minimize, sample_button Maximize, sample_button Close],
         g_spacing = 8, g_pos = (260, 8)\<rparr>\<rparr>"

definition sample_painter :: QPainter where
  "sample_painter =
     \<lparr>antialiasing = False, transforms = [], p_pen = None, p_brush = None, drawn = []\<rparr>"

text \<open>Two variants with base unit 2: the tiny border category, and a category value
  that no label of the switch names.\<close>

definition tiny_decoration :: Decoration where
  "tiny_decoration =
     sample_decoration\<lparr>settings := sample_settings\<lparr>smallSpacing := 2\<rparr>,
       m_internalSettings := Some (sample_internal\<lparr>is_borderSize := BorderTiny\<rparr>)\<rparr>"

definition unmapped_decoration :: Decoration where
  "unmapped_decoration =
     sample_decoration\<lparr>settings := sample_settings\<lparr>smallSpacing := 2\<rparr>,
       m_internalSettings := Some (sample_internal\<lparr>is_borderSize := BorderUnmapped 42\<rparr>)\<rparr>"

text \<open>A shaded window, by maximized flag and alpha-channel support.\<close>

definition shaded_decoration :: "bool \<Rightarrow> bool \<Rightarrow> Decoration" where
  "shaded_decoration maximized alpha =
     sample_decoration\<lparr>window := sample_window\<lparr>isShaded := True\<rparr>,
       settings := sample_settings\<lparr>isAlphaChannelSupported := alpha\<rparr>,
       isMaximized := maximized\<rparr>"

text \<open>The sample window with a caption whose text is \<open>tw\<close> wide, and a variant with
  no buttons on the right and a caption 280 wide.\<close>

definition caption_decoration :: "int \<Rightarrow> Decoration" where
  "caption_decoration tw =
     sample_decoration\<lparr>window := sample_window\<lparr>captionTextRect :=
       \<lparr>r_x = 0, r_y = - 12, r_width = tw, r_height = 16\<rparr>\<rparr>\<rparr>"

definition boundary_decoration :: Decoration where
  "boundary_decoration =
     (caption_decoration 280)\<lparr>m_rightButtons := \<lparr>buttons = [], g_spacing = 8, g_pos = (400, 8)\<rparr>\<rparr>"

text \<open>The sample window with its left and right edges on screen edges.\<close>

definition edge_decoration :: Decoration where
  "edge_decoration = sample_decoration\<lparr>isLeftEdge := True, isRightEdge := True\<rparr>"

text \<open>An animation 60 ms into its 150 ms forward course, where the eased value is 8/25;
  a window that has just become inactive and a button that has just lost the hover,
  both with that animation.\<close>

definition running_animation :: animation where
  "running_animation =
     \<lparr>an_state = Running, an_direction = Forward, an_duration = 150, an_currentTime = 60\<rparr>"

definition running_decoration :: Decoration where
  "running_decoration =
     sample_decoration\<lparr>window := sample_window\<lparr>isActive := False\<rparr>,
       m_opacity := 8 / 25, m_animation := running_animation\<rparr>"

definition running_button :: Button where
  "running_button =
     (sample_button Close)\<lparr>isHovered := False, b_opacity := 8 / 25,
        b_animation := running_animation\<rparr>"

section \<open>Properties of the colours\<close>

lemmas sample_defs =
  sample_decoration_def sample_window_def sample_colors_def sample_animation_def
  sample_button_def sample_internal_def sample_settings_def blend_def

text \<open>
  C10: whenever the title bar is hidden, \<open>titleBarColor\<close> is the host's inactive
  title-bar colour, whether or not the window is active and whether or not the window's
  animation runs. The cross-fade of the two title-bar colours is reached with a visible
  title bar only.
\<close>

theorem titleBarColor_hidden_is_inactive:
  "hideTitleBar d \<Longrightarrow> titleBarColor mix d = w_color (window d) Inactive TitleBar"
  by (simp add: titleBarColor_def)

text \<open>An active window whose animation runs at half its course: the hidden title bar
  has the inactive colour, the visible one the cross-fade.\<close>

theorem titleBarColor_hidden_is_inactive_witness:
  "hideTitleBar (sample_decoration\<lparr>hideTitleBar := True,
       m_animation := sample_animation\<lparr>an_state := Running\<rparr>, m_opacity := 1 / 2\<rparr>)
   \<and> isActive (window sample_decoration)
   \<and> titleBarColor sample_mix (sample_decoration\<lparr>hideTitleBar := True,
       m_animation := sample_animation\<lparr>an_state := Running\<rparr>, m_opacity := 1 / 2\<rparr>)
     = Rgba 200 200 200 255
   \<and> titleBarColor sample_mix (sample_decoration\<lparr>
       m_animation := sample_animation\<lparr>an_state := Running\<rparr>, m_opacity := 1 / 2\<rparr>)
     = Rgba 120 120 120 255"
  using titleBarColor_hidden_is_inactive [of "sample_decoration\<lparr>hideTitleBar := True,
       m_animation := sample_animation\<lparr>an_state := Running\<rparr>, m_opacity := 1 / 2\<rparr>" sample_mix]
  by (simp add: sample_defs titleBarColor_def)

text \<open>
  C5: the foreground colour of a button of a decoration whose settings are set follows
  this precedence: pressed gives the title-bar colour; else a close button under the
  outline setting gives the title-bar colour; else a checked keep-below, keep-above or
  shade button gives the title-bar colour; else a running animation gives the mix of
  the font colour and the title-bar colour at the button's progress; else hovered gives
  the title-bar colour; else the font colour.
\<close>

theorem foregroundColor_precedence:
  assumes "m_internalSettings d = Some s"
  shows "(isPressed b \<longrightarrow> foregroundColor mix (Some d) b = Some (titleBarColor mix d))
    \<and> (\<not> isPressed b \<and> b_type b = Close \<and> outlineCloseButton s
          \<longrightarrow> foregroundColor mix (Some d) b = Some (titleBarColor mix d))
    \<and> (\<not> isPressed b \<and> \<not> (b_type b = Close \<and> outlineCloseButton s)
          \<and> b_type b \<in> {KeepBelow, KeepAbove, Shade} \<and> isChecked b
          \<longrightarrow> foregroundColor mix (Some d) b = Some (titleBarColor mix d))
    \<and> (\<not> isPressed b \<and> \<not> (b_type b = Close \<and> outlineCloseButton s)
          \<and> \<not> (b_type b \<in> {KeepBelow, KeepAbove, Shade} \<and> isChecked b)
          \<and> an_state (b_animation b) = Running
          \<longrightarrow> foregroundColor mix (Some d) b
              = Some (mix (fontColor d) (titleBarColor mix d) (b_opacity b)))
    \<and> (\<not> isPressed b \<and> \<not> (b_type b = Close \<and> outlineCloseButton s)
          \<and> \<not> (b_type b \<in> {KeepBelow, KeepAbove, Shade} \<and> isChecked b)
          \<and> an_state (b_animation b) \<noteq> Running \<and> isHovered b
          \<longrightarrow> foregroundColor mix (Some d) b = Some (titleBarColor mix d))
    \<and> (\<not> isPressed b \<and> \<not> (b_type b = Close \<and> outlineCloseButton s)
          \<and> \<not> (b_type b \<in> {KeepBelow, KeepAbove, Shade} \<and> isChecked b)
          \<and> an_state (b_animation b) \<noteq> Running \<and> \<not> isHovered b
          \<longrightarrow> foregroundColor mix (Some d) b = Some (fontColor d))"
  using assms by (auto simp add: foregroundColor_def)

text \<open>One button for each of the six steps, in their order.\<close>

theorem foregroundColor_precedence_witness:
  "foregroundColor sample_mix (Some sample_decoration)
      ((sample_button Close)\<lparr>isPressed := True, isHovered := True\<rparr>) = Some (Rgba 40 40 40 255)
   \<and> foregroundColor sample_mix
      (Some (sample_decoration\<lparr>m_internalSettings := Some (sample_internal\<lparr>outlineCloseButton := True\<rparr>)\<rparr>))
      (sample_button Close) = Some (Rgba 40 40 40 255)
   \<and> foregroundColor sample_mix (Some sample_decoration)
      ((sample_button Shade)\<lparr>isChecked := True\<rparr>) = Some (Rgba 40 40 40 255)
   \<and> foregroundColor sample_mix (Some sample_decoration)
      ((sample_button Close)\<lparr>isHovered := True, b_opacity := 1 / 2,
         b_animation := sample_animation\<lparr>an_state := Running\<rparr>\<rparr>) = Some (Rgba 145 145 145 255)
   \<and> foregroundColor sample_mix (Some sample_decoration)
      ((sample_button Close)\<lparr>isHovered := True\<rparr>) = Some (Rgba 40 40 40 255)
   \<and> foregroundColor sample_mix (Some sample_decoration)
      (sample_button Close) = Some (Rgba 250 250 250 255)"
  using foregroundColor_precedence [of sample_decoration sample_internal
          "(sample_button Close)\<lparr>isPressed := True, isHovered := True\<rparr>" sample_mix]
        foregroundColor_precedence [of
          "sample_decoration\<lparr>m_internalSettings := Some (sample_internal\<lparr>outlineCloseButton := True\<rparr>)\<rparr>"
          "sample_internal\<lparr>outlineCloseButton := True\<rparr>" "sample_button Close" sample_mix]
        foregroundColor_precedence [of sample_decoration sample_internal
          "(sample_button Shade)\<lparr>isChecked := True\<rparr>" sample_mix]
        foregroundColor_precedence [of sample_decoration sample_internal
          "(sample_button Close)\<lparr>isHovered := True, b_opacity := 1 / 2,
             b_animation := sample_animation\<lparr>an_state := Running\<rparr>\<rparr>" sample_mix]
        foregroundColor_precedence [of sample_decoration sample_internal
          "(sample_button Close)\<lparr>isHovered := True\<rparr>" sample_mix]
        foregroundColor_precedence [of sample_decoration sample_internal
          "sample_button Close" sample_mix]
  by (simp add: sample_defs titleBarColor_def fontColor_def)

text \<open>
  C9: while the window is inactive, the background colour of a close, minimize or
  maximize button is light gray at alpha 128, hovered or not (and pressed or not), and
  every other button type has the invalid colour.
\<close>

theorem backgroundColor_inactive:
  "\<not> isActive (window d) \<Longrightarrow>
     backgroundColor mix (Some d) b =
       (if b_type b \<in> {Close, Minimize, Maximize} then Rgba 192 192 192 128 else Invalid)"
  by (cases "b_type b") (simp_all add: backgroundColor_def LightGray_def)

text \<open>A hovered and a plain close button and a hovered shade button of an inactive
  window; on the active window the hovered close button is red at alpha 192.\<close>

theorem backgroundColor_inactive_witness:
  "\<not> isActive (window (sample_decoration\<lparr>window := sample_window\<lparr>isActive := False\<rparr>\<rparr>))
   \<and> backgroundColor sample_mix (Some (sample_decoration\<lparr>window := sample_window\<lparr>isActive := False\<rparr>\<rparr>))
        ((sample_button Close)\<lparr>isHovered := True\<rparr>) = Rgba 192 192 192 128
   \<and> backgroundColor sample_mix (Some (sample_decoration\<lparr>window := sample_window\<lparr>isActive := False\<rparr>\<rparr>))
        (sample_button Close) = Rgba 192 192 192 128
   \<and> backgroundColor sample_mix (Some (sample_decoration\<lparr>window := sample_window\<lparr>isActive := False\<rparr>\<rparr>))
        ((sample_button Shade)\<lparr>isHovered := True\<rparr>) = Invalid
   \<and> backgroundColor sample_mix (Some sample_decoration)
        ((sample_button Close)\<lparr>isHovered := True\<rparr>) = Rgba 255 0 0 192"
  using backgroundColor_inactive [of "sample_decoration\<lparr>window := sample_window\<lparr>isActive := False\<rparr>\<rparr>"
           sample_mix "(sample_button Close)\<lparr>isHovered := True\<rparr>"]
        backgroundColor_inactive [of "sample_decoration\<lparr>window := sample_window\<lparr>isActive := False\<rparr>\<rparr>"
           sample_mix "sample_button Close"]
        backgroundColor_inactive [of "sample_decoration\<lparr>window := sample_window\<lparr>isActive := False\<rparr>\<rparr>"
           sample_mix "(sample_button Shade)\<lparr>isHovered := True\<rparr>"]
  by (simp add: sample_defs backgroundColor_def Red_def)

section \<open>Properties of the borders\<close>

lemma sample_base: "borderBaseSize sample_helpers sample_decoration 1 = 4"
  by (simp add: borderBaseSize_def sample_helpers_def sample_defs)

lemma tiny_base:
  "borderBaseSize sample_helpers tiny_decoration 1 = 2"
  "borderBaseSize sample_helpers unmapped_decoration 1 = 2"
  by (simp_all add: borderBaseSize_def sample_helpers_def sample_defs tiny_decoration_def
      unmapped_decoration_def)

lemma sample_snap4: "snapToPixelGrid sample_helpers 4 1 = 4"
  by (simp add: sample_helpers_def)

lemma sample_internalSettings:
  "m_internalSettings sample_decoration = Some sample_internal"
  "m_internalSettings tiny_decoration = Some (sample_internal\<lparr>is_borderSize := BorderTiny\<rparr>)"
  "m_internalSettings unmapped_decoration
     = Some (sample_internal\<lparr>is_borderSize := BorderUnmapped 42\<rparr>)"
  by (simp_all add: sample_decoration_def tiny_decoration_def unmapped_decoration_def)

text \<open>
  C3, as the code has it. With \<open>base = max (pixelSize scale) (snapped smallSpacing)\<close>:
  category none gives 0 for bottom and sides; no-sides gives sides 0 and bottom the
  snapped \<open>max 4 base\<close>; tiny gives that bottom and sides \<open>base\<close>, unsnapped; normal,
  large, very large, huge, very huge and oversized give bottom = sides = \<open>base\<close> times
  2, 3, 4, 5, 6 and 10; a value no label names gives what tiny gives. This holds for
  the theme's category when the theme's mask selects it, and for the host's category
  otherwise.
\<close>

theorem borderSize_by_category:
  "(let base = borderBaseSize k d scale;
        snapped = snapToPixelGrid k (max 4 base) scale;
        B = borderSize k d True scale;
        S = borderSize k d False scale
    in (m_internalSettings d = Some s \<and> mask_BorderSize s \<longrightarrow>
           (case is_borderSize s of
              BorderNone \<Rightarrow> B = 0 \<and> S = 0
            | BorderNoSides \<Rightarrow> B = snapped \<and> S = 0
            | BorderTiny \<Rightarrow> B = snapped \<and> S = base
            | BorderNormal \<Rightarrow> B = base * 2 \<and> S = base * 2
            | BorderLarge \<Rightarrow> B = base * 3 \<and> S = base * 3
            | BorderVeryLarge \<Rightarrow> B = base * 4 \<and> S = base * 4
            | BorderHuge \<Rightarrow> B = base * 5 \<and> S = base * 5
            | BorderVeryHuge \<Rightarrow> B = base * 6 \<and> S = base * 6
            | BorderOversized \<Rightarrow> B = base * 10 \<and> S = base * 10
            | BorderUnmapped v \<Rightarrow> B = snapped \<and> S = base))
       \<and> (m_internalSettings d = None \<or> (m_internalSettings d = Some s \<and> \<not> mask_BorderSize s) \<longrightarrow>
           (case ds_borderSize (settings d) of
              BorderSize_None \<Rightarrow> B = 0 \<and> S = 0
            | BorderSize_NoSides \<Rightarrow> B = snapped \<and> S = 0
            | BorderSize_Tiny \<Rightarrow> B = snapped \<and> S = base
            | BorderSize_Normal \<Rightarrow> B = base * 2 \<and> S = base * 2
            | BorderSize_Large \<Rightarrow> B = base * 3 \<and> S = base * 3
            | BorderSize_VeryLarge \<Rightarrow> B = base * 4 \<and> S = base * 4
            | BorderSize_Huge \<Rightarrow> B = base * 5 \<and> S = base * 5
            | BorderSize_VeryHuge \<Rightarrow> B = base * 6 \<and> S = base * 6
            | BorderSize_Oversized \<Rightarrow> B = base * 10 \<and> S = base * 10
            | BorderSize_Unmapped v \<Rightarrow> B = snapped \<and> S = base)))"
proof -
  have internal: "m_internalSettings d = Some s \<Longrightarrow> mask_BorderSize s \<Longrightarrow> ?thesis"
    by (cases "is_borderSize s") (simp_all add: borderSize_def Let_def)
  have host: "m_internalSettings d = None \<or> (m_internalSettings d = Some s \<and> \<not> mask_BorderSize s)
      \<Longrightarrow> ?thesis"
    by (cases "ds_borderSize (settings d)") (auto simp add: borderSize_def Let_def)
  show ?thesis
  proof (cases "m_internalSettings d")
    case None
    then show ?thesis using host by simp
  next
    case (Some i)
    show ?thesis
    proof (cases "i = s \<and> mask_BorderSize s")
      case True
      then show ?thesis using internal Some by simp
    next
      case False
      then show ?thesis using host Some by (auto simp add: Let_def)
    qed
  qed
qed

text \<open>At scale 1: the normal category on base 4, the tiny category and an unmapped
  value on base 2.\<close>

theorem borderSize_by_category_witness:
  "borderSize sample_helpers sample_decoration True 1 = 8
   \<and> borderSize sample_helpers sample_decoration False 1 = 8
   \<and> borderSize sample_helpers tiny_decoration True 1 = 4
   \<and> borderSize sample_helpers tiny_decoration False 1 = 2
   \<and> borderSize sample_helpers unmapped_decoration True 1 = 4
   \<and> borderSize sample_helpers unmapped_decoration False 1 = 2"
  using borderSize_by_category [of sample_helpers sample_decoration 1 sample_internal]
        borderSize_by_category [of sample_helpers tiny_decoration 1
          "sample_internal\<lparr>is_borderSize := BorderTiny\<rparr>"]
        borderSize_by_category [of sample_helpers unmapped_decoration 1
          "sample_internal\<lparr>is_borderSize := BorderUnmapped 42\<rparr>"]
  by (simp add: Let_def sample_base tiny_base sample_snap4 sample_internalSettings
      sample_internal_def)

text \<open>
  C3 as the claim words it pairs the six remaining categories with the factors
  1, 2, 3, 4, 5, 6, 10 in order, which gives the normal category the factor 1. On base
  unit 4 the normal category gives 8 for bottom and sides, not 4.
\<close>

theorem borderSize_normal_counterexample:
  "m_internalSettings sample_decoration = Some sample_internal
   \<and> mask_BorderSize sample_internal \<and> is_borderSize sample_internal = BorderNormal
   \<and> borderBaseSize sample_helpers sample_decoration 1 = 4
   \<and> borderSize sample_helpers sample_decoration True 1 = 8
   \<and> borderSize sample_helpers sample_decoration False 1 = 8
   \<and> borderSize sample_helpers sample_decoration True 1
       \<noteq> borderBaseSize sample_helpers sample_decoration 1 * 1"
  by (simp add: borderSize_def borderBaseSize_def sample_helpers_def sample_defs)

text \<open>
  C8: after \<open>recalculateBorders\<close>, with the title bar hidden the top border is the
  bottom border; otherwise it is the snapped larger of font height and button size plus
  the snapped product of twice the small spacing and the bottom margin factor.
\<close>

theorem recalculateBorders_top:
  "(hideTitleBar d \<longrightarrow>
      (\<exists>d'. recalculateBorders k m d = Some d'
         \<and> mf_top (borders d') = mf_bottom (borders d')
         \<and> mf_bottom (borders d') = borderSize k d True (w_nextScale (window d))))
   \<and> (\<not> hideTitleBar d \<and> buttonSize d = Some bs \<longrightarrow>
      (\<exists>d'. recalculateBorders k m d = Some d'
         \<and> mf_top (borders d') =
             snapToPixelGrid k (of_int (max (fontHeight (settings d)) bs)) (w_nextScale (window d))
             + snapToPixelGrid k
                 (of_int (2 * smallSpacing (settings d) * TitleBar_BottomMargin m))
                 (w_nextScale (window d))))"
  by (simp add: recalculateBorders_def Let_def mult.commute)

text \<open>Font height 17, button size 36, small spacing 4 and margin factor 2 at scale 1:
  the top border is 36 + 16; with the title bar hidden it is the bottom border, 8.\<close>

theorem recalculateBorders_top_witness:
  "buttonSize sample_decoration = Some 36
   \<and> map_option borders (recalculateBorders sample_helpers sample_metrics sample_decoration)
       = Some \<lparr>mf_left = 8, mf_top = 52, mf_right = 8, mf_bottom = 8\<rparr>
   \<and> map_option borders (recalculateBorders sample_helpers sample_metrics
         (sample_decoration\<lparr>hideTitleBar := True\<rparr>))
       = Some \<lparr>mf_left = 8, mf_top = 8, mf_right = 8, mf_bottom = 8\<rparr>"
  using recalculateBorders_top [of sample_decoration sample_helpers sample_metrics 36]
    recalculateBorders_top [of "sample_decoration\<lparr>hideTitleBar := True\<rparr>" sample_helpers
      sample_metrics 36]
  by (simp add: recalculateBorders_def buttonSize_def borderSize_def borderBaseSize_def
        sample_helpers_def sample_metrics_def sample_defs)

section \<open>Properties of the outlines\<close>

lemma titleBarShape_total:
  "m_internalSettings d \<noteq> None \<or> isMaximized d \<or> \<not> isAlphaChannelSupported (settings d) \<Longrightarrow>
     \<exists>d'. calculateTitleBarShape d = Some d'"
  by (auto simp add: calculateTitleBarShape_def Let_def split: if_splits option.splits)

text \<open>
  C4: for a shaded window, whatever the maximized flag, the alpha-channel flag and the
  argument are, a run of \<open>calculateWindowAndTitleBarShapes\<close> leaves the window path
  equal to the title-bar path; and the run does return a state when the settings are
  set, and also without them when the window is maximized or alpha is unsupported.
\<close>

theorem shaded_windowPath_is_titleBarPath:
  assumes "isShaded (window d)"
  shows "(\<forall>d'. calculateWindowAndTitleBarShapes windowShapeOnly d = Some d'
             \<longrightarrow> m_windowPath d' = m_titleBarPath d')
       \<and> (m_internalSettings d \<noteq> None \<or> isMaximized d \<or> \<not> isAlphaChannelSupported (settings d)
             \<longrightarrow> (\<exists>d'. calculateWindowAndTitleBarShapes windowShapeOnly d = Some d'))"
proof (intro conjI allI impI)
  fix d'
  assume r: "calculateWindowAndTitleBarShapes windowShapeOnly d = Some d'"
  then obtain d2 where d2: "calculateTitleBarShape d = Some d2"
    and d': "d' = d2\<lparr>m_windowPath := m_titleBarPath d2\<rparr>"
    using assms by (auto simp add: calculateWindowAndTitleBarShapes_def Let_def split: option.splits)
  show "m_windowPath d' = m_titleBarPath d'" by (simp add: d')
next
  assume "m_internalSettings d \<noteq> None \<or> isMaximized d \<or> \<not> isAlphaChannelSupported (settings d)"
  then obtain d2 where "calculateTitleBarShape d = Some d2"
    using titleBarShape_total by blast
  then show "\<exists>d'. calculateWindowAndTitleBarShapes windowShapeOnly d = Some d'"
    using assms by (simp add: calculateWindowAndTitleBarShapes_def Let_def)
qed

lemma shaded_is_shaded: "isShaded (window (shaded_decoration maximized alpha))"
  by (simp add: shaded_decoration_def sample_window_def)

lemma shaded_titleBarPath:
  "map_option m_titleBarPath (calculateWindowAndTitleBarShapes True (shaded_decoration False True))
     = Some [AddRoundedRect \<lparr>rf_x = 0, rf_y = 0, rf_width = 400, rf_height = 44\<rparr> 6 6]"
  "map_option m_titleBarPath (calculateWindowAndTitleBarShapes True (shaded_decoration True True))
     = Some [AddRect \<lparr>rf_x = 0, rf_y = 0, rf_width = 400, rf_height = 44\<rparr>]"
  "map_option m_titleBarPath (calculateWindowAndTitleBarShapes True (shaded_decoration False False))
     = Some [AddRect \<lparr>rf_x = 0, rf_y = 0, rf_width = 400, rf_height = 44\<rparr>]"
  "map_option m_titleBarPath (calculateWindowAndTitleBarShapes True (shaded_decoration True False))
     = Some [AddRect \<lparr>rf_x = 0, rf_y = 0, rf_width = 400, rf_height = 44\<rparr>]"
  by (simp_all add: calculateWindowAndTitleBarShapes_def calculateTitleBarShape_def
      shaded_decoration_def sample_defs borderTop_def toInt_def toRectF_def addRect_def
      addRoundedRect_def)

text \<open>The four combinations of the two flags on a shaded window 400 wide with top
  border 44: the window path is the rounded title rectangle when alpha is supported
  and the window is not maximized, and the plain title rectangle otherwise.\<close>

theorem shaded_windowPath_is_titleBarPath_witness:
  "map_option m_windowPath (calculateWindowAndTitleBarShapes True (shaded_decoration False True))
     = Some [AddRoundedRect \<lparr>rf_x = 0, rf_y = 0, rf_width = 400, rf_height = 44\<rparr> 6 6]
   \<and> map_option m_windowPath (calculateWindowAndTitleBarShapes True (shaded_decoration True True))
     = Some [AddRect \<lparr>rf_x = 0, rf_y = 0, rf_width = 400, rf_height = 44\<rparr>]
   \<and> map_option m_windowPath (calculateWindowAndTitleBarShapes True (shaded_decoration False False))
     = Some [AddRect \<lparr>rf_x = 0, rf_y = 0, rf_width = 400, rf_height = 44\<rparr>]
   \<and> map_option m_windowPath (calculateWindowAndTitleBarShapes True (shaded_decoration True False))
     = Some [AddRect \<lparr>rf_x = 0, rf_y = 0, rf_width = 400, rf_height = 44\<rparr>]"
proof -
  have step: "map_option m_windowPath (calculateWindowAndTitleBarShapes True (shaded_decoration mx al))
      = map_option m_titleBarPath (calculateWindowAndTitleBarShapes True (shaded_decoration mx al))"
    for mx al
  proof -
    have set: "m_internalSettings (shaded_decoration mx al) \<noteq> None"
      by (simp add: shaded_decoration_def sample_decoration_def)
    from shaded_windowPath_is_titleBarPath [OF shaded_is_shaded, of True mx al] set
    obtain d' where r: "calculateWindowAndTitleBarShapes True (shaded_decoration mx al) = Some d'"
      and eq: "m_windowPath d' = m_titleBarPath d'"
      by blast
    show ?thesis by (simp add: r eq)
  qed
  show ?thesis by (simp only: step shaded_titleBarPath simp_thms)
qed

section \<open>Properties of the caption rectangle\<close>

lemma captionHeight_total:
  "\<not> hideTitleBar d \<Longrightarrow> m_internalSettings d = Some s \<Longrightarrow> \<exists>ch. captionHeight d = Some ch"
  by (simp add: captionHeight_def buttonSize_def Let_def)

lemma boundingRect_edges:
  "left (boundingRect k m d ch) = (sz_width (d_size d) - of_int (r_width (captionTextRect (window d)))) / 2"
  "right (boundingRect k m d ch) = left (boundingRect k m d ch) + of_int (r_width (captionTextRect (window d)))"
  by (simp_all add: boundingRect_def left_def right_def moveLeft_def setHeight_def setTop_def
      toRectF_def Let_def)

lemma align_distinct:
  "{Qt_AlignVCenter, Qt_AlignLeft} \<noteq> Qt_AlignCenter"
  "{Qt_AlignVCenter, Qt_AlignRight} \<noteq> Qt_AlignCenter"
  "{Qt_AlignVCenter, Qt_AlignLeft} \<noteq> {Qt_AlignVCenter, Qt_AlignRight}"
  by (auto simp add: Qt_AlignCenter_def doubleton_eq_iff)

text \<open>
  C1, as the code has it. With a visible title bar and the full-width alignment policy
  (or an alignment value no label names), let the box be the caption's text centred in
  the full width. The caption is centred over the full title-bar rectangle exactly when
  the box lies within the closed interval from \<open>leftOffset\<close> to
  \<open>width - rightOffset\<close>, its ends included. When the left edge of the box is left of
  \<open>leftOffset\<close>, the result is the constrained rectangle, left-aligned, whatever the
  right edge does; when only the right edge is out, it is the constrained rectangle,
  right-aligned.
\<close>

theorem captionRect_fullWidth:
  assumes nh: "\<not> hideTitleBar d"
    and s: "m_internalSettings d = Some s"
    and fw: "titleAlignment s \<notin> {AlignLeft, AlignRight, AlignCenter}"
  shows "\<exists>ch. captionHeight d = Some ch \<and>
     (let lo = leftOffset k m groupGeometry d;
          hi = sz_width (d_size d) - rightOffset k m groupGeometry d;
          box = boundingRect k m d ch;
          result = captionRect k m groupGeometry d
      in left box = (sz_width (d_size d) - of_int (r_width (captionTextRect (window d)))) / 2
         \<and> right box = left box + of_int (r_width (captionTextRect (window d)))
         \<and> (result = Some (fullRect k m d ch, Qt_AlignCenter) \<longleftrightarrow> lo \<le> left box \<and> right box \<le> hi)
         \<and> (left box < lo \<longrightarrow>
              result = Some (maxRect k m groupGeometry d ch, {Qt_AlignVCenter, Qt_AlignLeft}))
         \<and> (lo \<le> left box \<and> hi < right box \<longrightarrow>
              result = Some (maxRect k m groupGeometry d ch, {Qt_AlignVCenter, Qt_AlignRight})))"
proof -
  from captionHeight_total [OF nh s] obtain ch where ch: "captionHeight d = Some ch" ..
  have r: "captionRect k m groupGeometry d =
      Some (if left (boundingRect k m d ch) < leftOffset k m groupGeometry d then
              (maxRect k m groupGeometry d ch, {Qt_AlignVCenter, Qt_AlignLeft})
            else if right (boundingRect k m d ch)
                    > sz_width (d_size d) - rightOffset k m groupGeometry d then
              (maxRect k m groupGeometry d ch, {Qt_AlignVCenter, Qt_AlignRight})
            else (fullRect k m d ch, Qt_AlignCenter))"
    using nh s fw by (cases "titleAlignment s") (simp_all add: captionRect_def ch Let_def)
  have "let lo = leftOffset k m groupGeometry d;
          hi = sz_width (d_size d) - rightOffset k m groupGeometry d;
          box = boundingRect k m d ch;
          result = captionRect k m groupGeometry d
      in left box = (sz_width (d_size d) - of_int (r_width (captionTextRect (window d)))) / 2
         \<and> right box = left box + of_int (r_width (captionTextRect (window d)))
         \<and> (result = Some (fullRect k m d ch, Qt_AlignCenter) \<longleftrightarrow> lo \<le> left box \<and> right box \<le> hi)
         \<and> (left box < lo \<longrightarrow>
              result = Some (maxRect k m groupGeometry d ch, {Qt_AlignVCenter, Qt_AlignLeft}))
         \<and> (lo \<le> left box \<and> hi < right box \<longrightarrow>
              result = Some (maxRect k m groupGeometry d ch, {Qt_AlignVCenter, Qt_AlignRight}))"
    unfolding Let_def r using boundingRect_edges [of k m d ch] align_distinct
    by (simp add: not_less)
  with ch show ?thesis by blast
qed

lemma caption_eval:
  "leftOffset sample_helpers sample_metrics sample_groupGeometry (caption_decoration tw) = 60"
  "rightOffset sample_helpers sample_metrics sample_groupGeometry (caption_decoration tw) = 148"
  "yOffset sample_helpers sample_metrics (caption_decoration tw) = 8"
  "captionHeight (caption_decoration tw) = Some 36"
  "sz_width (d_size (caption_decoration tw)) = 400"
  "r_width (captionTextRect (window (caption_decoration tw))) = tw"
  "\<not> hideTitleBar (caption_decoration tw)"
  "m_internalSettings (caption_decoration tw) = Some sample_internal"
  by (simp_all add: leftOffset_def rightOffset_def yOffset_def captionHeight_def buttonSize_def
      caption_decoration_def sample_groupGeometry_def sample_helpers_def sample_metrics_def
      sample_defs)

lemma boundary_eval:
  "leftOffset sample_helpers sample_metrics sample_groupGeometry boundary_decoration = 60"
  "rightOffset sample_helpers sample_metrics sample_groupGeometry boundary_decoration = 8"
  "yOffset sample_helpers sample_metrics boundary_decoration = 8"
  "captionHeight boundary_decoration = Some 36"
  "left (boundingRect sample_helpers sample_metrics boundary_decoration 36) = 60"
  "right (boundingRect sample_helpers sample_metrics boundary_decoration 36) = 340"
  "fullRect sample_helpers sample_metrics boundary_decoration 36
     = \<lparr>rf_x = 0, rf_y = 8, rf_width = 400, rf_height = 36\<rparr>"
  by (simp_all add: leftOffset_def rightOffset_def yOffset_def captionHeight_def buttonSize_def
      boundingRect_edges fullRect_def toRectF_def toInt_def
      boundary_decoration_def caption_decoration_def sample_groupGeometry_def sample_helpers_def
      sample_metrics_def sample_defs)

text \<open>
  C1 as the claim words it centres the caption only when the box fits strictly. With
  the left group ending at 52, side margin 8, width 400 and a text 280 wide, the left
  edge of the box is 60, which is \<open>leftOffset\<close> itself, and the caption is centred
  over the full width all the same.
\<close>

theorem captionRect_boundary_counterexample:
  "titleAlignment sample_internal = AlignCenterFullWidth
   \<and> m_internalSettings boundary_decoration = Some sample_internal
   \<and> left (boundingRect sample_helpers sample_metrics boundary_decoration 36)
       = leftOffset sample_helpers sample_metrics sample_groupGeometry boundary_decoration
   \<and> captionRect sample_helpers sample_metrics sample_groupGeometry boundary_decoration
       = Some (\<lparr>rf_x = 0, rf_y = 8, rf_width = 400, rf_height = 36\<rparr>, Qt_AlignCenter)"
  by (simp add: captionRect_def boundary_eval)
     (simp add: boundary_decoration_def caption_decoration_def sample_defs)


lemma caption_box:
  "left (boundingRect sample_helpers sample_metrics (caption_decoration tw) 36) = (400 - of_int tw) / 2"
  "right (boundingRect sample_helpers sample_metrics (caption_decoration tw) 36) = (400 - of_int tw) / 2 + of_int tw"
  by (simp_all add: boundingRect_edges caption_eval)

lemma caption_rects:
  "maxRect sample_helpers sample_metrics sample_groupGeometry (caption_decoration tw) 36
     = \<lparr>rf_x = 60, rf_y = 8, rf_width = 192, rf_height = 36\<rparr>"
  "fullRect sample_helpers sample_metrics (caption_decoration tw) 36
     = \<lparr>rf_x = 0, rf_y = 8, rf_width = 400, rf_height = 36\<rparr>"
  by (simp_all add: maxRect_def fullRect_def caption_eval toRectF_def toInt_def)

lemma sample_fullWidth: "titleAlignment sample_internal \<notin> {AlignLeft, AlignRight, AlignCenter}"
  by (simp add: sample_internal_def)

text \<open>Text widths 60 (fits), 300 (left edge out), 200 (right edge out) and 380 (both
  out: left-aligned) in a window 400 wide with offsets 60 and 148.\<close>

theorem captionRect_fullWidth_witness:
  "captionRect sample_helpers sample_metrics sample_groupGeometry (caption_decoration 60)
     = Some (\<lparr>rf_x = 0, rf_y = 8, rf_width = 400, rf_height = 36\<rparr>, Qt_AlignCenter)
   \<and> captionRect sample_helpers sample_metrics sample_groupGeometry (caption_decoration 300)
     = Some (\<lparr>rf_x = 60, rf_y = 8, rf_width = 192, rf_height = 36\<rparr>, {Qt_AlignVCenter, Qt_AlignLeft})
   \<and> captionRect sample_helpers sample_metrics sample_groupGeometry (caption_decoration 200)
     = Some (\<lparr>rf_x = 60, rf_y = 8, rf_width = 192, rf_height = 36\<rparr>, {Qt_AlignVCenter, Qt_AlignRight})
   \<and> captionRect sample_helpers sample_metrics sample_groupGeometry (caption_decoration 380)
     = Some (\<lparr>rf_x = 60, rf_y = 8, rf_width = 192, rf_height = 36\<rparr>, {Qt_AlignVCenter, Qt_AlignLeft})"
  using captionRect_fullWidth [OF caption_eval(7) caption_eval(8) sample_fullWidth,
          of 60 sample_helpers sample_metrics sample_groupGeometry]
        captionRect_fullWidth [OF caption_eval(7) caption_eval(8) sample_fullWidth,
          of 300 sample_helpers sample_metrics sample_groupGeometry]
        captionRect_fullWidth [OF caption_eval(7) caption_eval(8) sample_fullWidth,
          of 200 sample_helpers sample_metrics sample_groupGeometry]
        captionRect_fullWidth [OF caption_eval(7) caption_eval(8) sample_fullWidth,
          of 380 sample_helpers sample_metrics sample_groupGeometry]
  by (simp add: Let_def caption_eval caption_box caption_rects)

section \<open>Properties of the button layout\<close>

lemma updateLeftButtons_right:
  "m_rightButtons (updateLeftButtons m d) = m_rightButtons d"
  "settings (updateLeftButtons m d) = settings d"
  "isTopEdge (updateLeftButtons m d) = isTopEdge d"
  "isRightEdge (updateLeftButtons m d) = isRightEdge d"
  "d_size (updateLeftButtons m d) = d_size d"
  "borders (updateLeftButtons m d) = borders d"
  by (simp_all add: updateLeftButtons_def Let_def split: list.splits)

lemma updateRightButtons_left:
  "m_leftButtons (updateRightButtons m gg d) = m_leftButtons d"
  by (simp add: updateRightButtons_def Let_def)

lemma left_group:
  assumes "buttons (m_leftButtons d) = b0 # bs"
  shows "m_leftButtons (updateButtonsGeometry m gg d) =
     (let hPadding = smallSpacing (settings d) * TitleBar_SideMargin m;
          vPadding = (if isTopEdge d then 0 else smallSpacing (settings d) * TitleBar_TopMargin m);
          g = (m_leftButtons d)\<lparr>g_spacing :=
                 of_int (smallSpacing (settings d) * TitleBar_ButtonSpacing m)\<rparr>
      in if isLeftEdge d then
           g\<lparr>buttons := edgeButton True hPadding (layoutButton m d b0) # map (layoutButton m d) bs,
             g_pos := (0, of_int vPadding)\<rparr>
         else g\<lparr>buttons := map (layoutButton m d) (b0 # bs),
                g_pos := (of_int hPadding + borderLeft d, of_int vPadding)\<rparr>)"
  using assms
  by (simp add: updateButtonsGeometry_def updateRightButtons_left updateLeftButtons_def Let_def
      borderLeft_def)

lemma right_group:
  assumes "buttons (m_rightButtons d) \<noteq> []"
  shows "m_rightButtons (updateButtonsGeometry m gg d) =
     (let hPadding = smallSpacing (settings d) * TitleBar_SideMargin m;
          vPadding = (if isTopEdge d then 0 else smallSpacing (settings d) * TitleBar_TopMargin m);
          g = (m_rightButtons d)\<lparr>buttons := map (layoutButton m d) (buttons (m_rightButtons d)),
                 g_spacing := of_int (smallSpacing (settings d) * TitleBar_ButtonSpacing m)\<rparr>
      in if isRightEdge d then
           (let g1 = g\<lparr>buttons := map (layoutButton m d) (butlast (buttons (m_rightButtons d)))
                        @ [edgeButton False hPadding (layoutButton m d (last (buttons (m_rightButtons d))))]\<rparr>
            in g1\<lparr>g_pos := (sz_width (d_size d) - rf_width (gg g1), of_int vPadding)\<rparr>)
         else g\<lparr>g_pos := (sz_width (d_size d) - rf_width (gg g) - of_int hPadding - borderRight d,
                          of_int vPadding)\<rparr>)"
  using assms
  by (simp add: updateButtonsGeometry_def updateRightButtons_def updateLeftButtons_right Let_def
      borderRight_def map_butlast last_map)


text \<open>
  C7: after \<open>updateButtonsGeometry\<close>, with \<open>hPadding\<close> the side margin (small spacing
  times the side-margin factor): a non-empty left group of a window whose left edge is
  on a screen edge stands at x = 0, and its first button starts \<open>hPadding\<close> to the
  left of its own origin, is \<open>hPadding\<close> wider than its preferred width and carries
  the first-in-list flag; otherwise the group stands at x = \<open>hPadding + borderLeft\<close>.
  For a non-empty right group the last button is widened to the right by \<open>hPadding\<close>
  and flagged, and the group stands at the width of the decoration minus the group's
  width; otherwise \<open>hPadding\<close> and the right border are subtracted as well. The
  group's width is the one KDecoration3 computes for the group as laid out, before it
  is positioned.
\<close>

theorem updateButtonsGeometry_edge_rule:
  "(let hPadding = smallSpacing (settings d) * TitleBar_SideMargin m;
        L = m_leftButtons (updateButtonsGeometry m gg d);
        R = m_rightButtons (updateButtonsGeometry m gg d);
        laidOut = R\<lparr>g_pos := g_pos (m_rightButtons d)\<rparr>
    in (buttons (m_leftButtons d) = b0 # bs \<longrightarrow>
          (isLeftEdge d \<longrightarrow>
             fst (g_pos L) = 0
             \<and> (\<exists>b' rest. buttons L = b' # rest \<and> length rest = length bs
                  \<and> rf_x (b_geometry b') = - of_int hPadding
                  \<and> rf_width (b_geometry b')
                      = of_int (toInt (sz_width (preferredSize b0))) + of_int hPadding
                  \<and> m_flag b' = FlagFirstInList))
          \<and> (\<not> isLeftEdge d \<longrightarrow> fst (g_pos L) = of_int hPadding + borderLeft d))
     \<and> (buttons (m_rightButtons d) = rs @ [bn] \<longrightarrow>
          (isRightEdge d \<longrightarrow>
             fst (g_pos R) = sz_width (d_size d) - rf_width (gg laidOut)
             \<and> (\<exists>b' rest. buttons R = rest @ [b'] \<and> length rest = length rs
                  \<and> rf_x (b_geometry b') = 0
                  \<and> rf_width (b_geometry b')
                      = of_int (toInt (sz_width (preferredSize bn))) + of_int hPadding
                  \<and> m_flag b' = FlagFirstInList))
          \<and> (\<not> isRightEdge d \<longrightarrow>
                fst (g_pos R) = sz_width (d_size d) - rf_width (gg laidOut)
                                 - of_int hPadding - borderRight d)))"
proof -
  have left: "buttons (m_leftButtons d) = b0 # bs \<Longrightarrow>
      (isLeftEdge d \<longrightarrow>
         fst (g_pos (m_leftButtons (updateButtonsGeometry m gg d))) = 0
         \<and> (\<exists>b' rest. buttons (m_leftButtons (updateButtonsGeometry m gg d)) = b' # rest
              \<and> length rest = length bs
              \<and> rf_x (b_geometry b') = - of_int (smallSpacing (settings d) * TitleBar_SideMargin m)
              \<and> rf_width (b_geometry b')
                  = of_int (toInt (sz_width (preferredSize b0)))
                    + of_int (smallSpacing (settings d) * TitleBar_SideMargin m)
              \<and> m_flag b' = FlagFirstInList))
      \<and> (\<not> isLeftEdge d \<longrightarrow>
            fst (g_pos (m_leftButtons (updateButtonsGeometry m gg d)))
              = of_int (smallSpacing (settings d) * TitleBar_SideMargin m) + borderLeft d)"
    by (simp add: left_group Let_def edgeButton_def layoutButton_def adjust_def)
  have right: "buttons (m_rightButtons d) = rs @ [bn] \<Longrightarrow>
      (isRightEdge d \<longrightarrow>
         fst (g_pos (m_rightButtons (updateButtonsGeometry m gg d)))
           = sz_width (d_size d)
             - rf_width (gg ((m_rightButtons (updateButtonsGeometry m gg d))
                               \<lparr>g_pos := g_pos (m_rightButtons d)\<rparr>))
         \<and> (\<exists>b' rest. buttons (m_rightButtons (updateButtonsGeometry m gg d)) = rest @ [b']
              \<and> length rest = length rs
              \<and> rf_x (b_geometry b') = 0
              \<and> rf_width (b_geometry b')
                  = of_int (toInt (sz_width (preferredSize bn)))
                    + of_int (smallSpacing (settings d) * TitleBar_SideMargin m)
              \<and> m_flag b' = FlagFirstInList))
      \<and> (\<not> isRightEdge d \<longrightarrow>
            fst (g_pos (m_rightButtons (updateButtonsGeometry m gg d)))
              = sz_width (d_size d)
                - rf_width (gg ((m_rightButtons (updateButtonsGeometry m gg d))
                                  \<lparr>g_pos := g_pos (m_rightButtons d)\<rparr>))
                - of_int (smallSpacing (settings d) * TitleBar_SideMargin m) - borderRight d)"
    by (simp add: right_group Let_def edgeButton_def layoutButton_def adjust_def)
  show ?thesis unfolding Let_def using left right by blast
qed


lemma edge_layout:
  "g_pos (m_leftButtons (updateButtonsGeometry sample_metrics sample_groupGeometry edge_decoration))
     = (0, 8)"
  "map (\<lambda>b. (b_geometry b, m_flag b))
       (buttons (m_leftButtons (updateButtonsGeometry sample_metrics sample_groupGeometry edge_decoration)))
     = [(\<lparr>rf_x = - 8, rf_y = 0, rf_width = 44, rf_height = 36\<rparr>, FlagFirstInList)]"
  "g_pos (m_rightButtons (updateButtonsGeometry sample_metrics sample_groupGeometry edge_decoration))
     = (268, 8)"
  "map (\<lambda>b. (b_geometry b, m_flag b))
       (buttons (m_rightButtons (updateButtonsGeometry sample_metrics sample_groupGeometry edge_decoration)))
     = [(\<lparr>rf_x = 0, rf_y = 0, rf_width = 36, rf_height = 36\<rparr>, FlagNone),
        (\<lparr>rf_x = 0, rf_y = 0, rf_width = 36, rf_height = 36\<rparr>, FlagNone),
        (\<lparr>rf_x = 0, rf_y = 0, rf_width = 44, rf_height = 36\<rparr>, FlagFirstInList)]"
  "g_pos (m_leftButtons (updateButtonsGeometry sample_metrics sample_groupGeometry sample_decoration))
     = (16, 8)"
  "g_pos (m_rightButtons (updateButtonsGeometry sample_metrics sample_groupGeometry sample_decoration))
     = (260, 8)"
  by (simp_all add: updateButtonsGeometry_def updateLeftButtons_def updateRightButtons_def
      edgeButton_def layoutButton_def adjust_def borderLeft_def borderRight_def toInt_def
      edge_decoration_def sample_groupGeometry_def sample_metrics_def sample_defs)

text \<open>Both edges on the screen: the menu button becomes 44 wide from x = -8 and the
  left group stands at 0; the close button becomes 44 wide and the right group stands
  at 400 - 132. With no edge on the screen the groups stand at 16 and at 260.\<close>

theorem updateButtonsGeometry_edge_rule_witness:
  "g_pos (m_leftButtons (updateButtonsGeometry sample_metrics sample_groupGeometry edge_decoration))
     = (0, 8)
   \<and> map (\<lambda>b. (b_geometry b, m_flag b))
       (buttons (m_leftButtons (updateButtonsGeometry sample_metrics sample_groupGeometry edge_decoration)))
     = [(\<lparr>rf_x = - 8, rf_y = 0, rf_width = 44, rf_height = 36\<rparr>, FlagFirstInList)]
   \<and> g_pos (m_rightButtons (updateButtonsGeometry sample_metrics sample_groupGeometry edge_decoration))
     = (268, 8)
   \<and> map (\<lambda>b. (b_geometry b, m_flag b))
       (buttons (m_rightButtons (updateButtonsGeometry sample_metrics sample_groupGeometry edge_decoration)))
     = [(\<lparr>rf_x = 0, rf_y = 0, rf_width = 36, rf_height = 36\<rparr>, FlagNone),
        (\<lparr>rf_x = 0, rf_y = 0, rf_width = 36, rf_height = 36\<rparr>, FlagNone),
        (\<lparr>rf_x = 0, rf_y = 0, rf_width = 44, rf_height = 36\<rparr>, FlagFirstInList)]
   \<and> g_pos (m_leftButtons (updateButtonsGeometry sample_metrics sample_groupGeometry sample_decoration))
     = (16, 8)
   \<and> g_pos (m_rightButtons (updateButtonsGeometry sample_metrics sample_groupGeometry sample_decoration))
     = (260, 8)"
  using updateButtonsGeometry_edge_rule [of edge_decoration sample_metrics sample_groupGeometry
          "sample_button Menu" "[]" "[sample_button Minimize, sample_button Maximize]"
          "sample_button Close"]
        updateButtonsGeometry_edge_rule [of sample_decoration sample_metrics sample_groupGeometry
          "sample_button Menu" "[]" "[sample_button Minimize, sample_button Maximize]"
          "sample_button Close"]
  by (simp only: edge_layout simp_thms)

section \<open>Properties of the animation\<close>

text \<open>
  C6: when the direction flips while the animation runs, neither controller moves the
  progress. Given that Qt's \<open>setDirection\<close> on a running animation changes the
  direction only and emits no value, \<open>updateAnimationState\<close> of the decoration and of
  the button, called on a running animation, returns a state with the opacity and the
  current time unchanged, the animation still running and, with animations enabled, the
  new direction set. \<open>start\<close>, which rewinds, is not called: the statement holds for
  every \<open>start\<close>.
\<close>

theorem updateAnimationState_keeps_progress:
  assumes qt: "\<forall>dir a. an_state a = Running \<longrightarrow> setDirection api dir a = (a\<lparr>an_direction := dir\<rparr>, [])"
  shows "(m_internalSettings d = Some s \<and> an_state (m_animation d) = Running \<longrightarrow>
           (\<exists>d'. Decoration_updateAnimationState api d = Some d'
              \<and> m_opacity d' = m_opacity d
              \<and> an_currentTime (m_animation d') = an_currentTime (m_animation d)
              \<and> an_state (m_animation d') = Running
              \<and> (animationsEnabled s \<longrightarrow>
                   an_direction (m_animation d') = (if isActive (window d) then Forward else Backward))))
       \<and> (m_internalSettings d = Some s \<and> an_state (b_animation b) = Running \<longrightarrow>
           (\<exists>b'. Button_updateAnimationState api setOp (Some d) hovered b = Some b'
              \<and> b_opacity b' = b_opacity b
              \<and> an_currentTime (b_animation b') = an_currentTime (b_animation b)
              \<and> an_state (b_animation b') = Running
              \<and> (animationsEnabled s \<longrightarrow>
                   an_direction (b_animation b') = (if hovered then Forward else Backward))))"
proof (intro conjI impI)
  assume a: "m_internalSettings d = Some s \<and> an_state (m_animation d) = Running"
  then have sd: "setDirection api dir (m_animation d) = ((m_animation d)\<lparr>an_direction := dir\<rparr>, [])"
    for dir using qt by blast
  show "\<exists>d'. Decoration_updateAnimationState api d = Some d'
              \<and> m_opacity d' = m_opacity d
              \<and> an_currentTime (m_animation d') = an_currentTime (m_animation d)
              \<and> an_state (m_animation d') = Running
              \<and> (animationsEnabled s \<longrightarrow>
                   an_direction (m_animation d') = (if isActive (window d) then Forward else Backward))"
    using a by (simp add: Decoration_updateAnimationState_def sd Let_def)
next
  assume a: "m_internalSettings d = Some s \<and> an_state (b_animation b) = Running"
  then have sd: "setDirection api dir (b_animation b) = ((b_animation b)\<lparr>an_direction := dir\<rparr>, [])"
    for dir using qt by blast
  show "\<exists>b'. Button_updateAnimationState api setOp (Some d) hovered b = Some b'
              \<and> b_opacity b' = b_opacity b
              \<and> an_currentTime (b_animation b') = an_currentTime (b_animation b)
              \<and> an_state (b_animation b') = Running
              \<and> (animationsEnabled s \<longrightarrow>
                   an_direction (b_animation b') = (if hovered then Forward else Backward))"
    using a by (simp add: Button_updateAnimationState_def sd Let_def)
qed

lemma sample_api_running:
  "\<forall>dir a. an_state a = Running \<longrightarrow> setDirection sample_api dir a = (a\<lparr>an_direction := dir\<rparr>, [])"
  by (simp add: sample_api_def)

lemma running_eval:
  "Decoration_updateAnimationState sample_api running_decoration
     = Some (running_decoration\<lparr>m_animation := running_animation\<lparr>an_direction := Backward\<rparr>\<rparr>)"
  "Button_updateAnimationState sample_api sample_setOp (Some running_decoration) False running_button
     = Some (running_button\<lparr>b_animation := running_animation\<lparr>an_direction := Backward\<rparr>\<rparr>)"
  "m_opacity running_decoration = 8 / 25"
  "b_opacity running_button = 8 / 25"
  by (simp_all add: Decoration_updateAnimationState_def Button_updateAnimationState_def
      sample_api_def running_decoration_def running_button_def running_animation_def sample_defs)

text \<open>The window turns inactive and the button loses the hover 60 ms into the forward
  course: both animations run backward from 60 ms and opacity 8/25.\<close>

theorem updateAnimationState_keeps_progress_witness:
  "map_option (\<lambda>d. (m_opacity d, m_animation d))
       (Decoration_updateAnimationState sample_api running_decoration)
     = Some (8 / 25, \<lparr>an_state = Running, an_direction = Backward, an_duration = 150,
                       an_currentTime = 60\<rparr>)
   \<and> map_option (\<lambda>b. (b_opacity b, b_animation b))
       (Button_updateAnimationState sample_api sample_setOp (Some running_decoration) False
          running_button)
     = Some (8 / 25, \<lparr>an_state = Running, an_direction = Backward, an_duration = 150,
                       an_currentTime = 60\<rparr>)"
  using updateAnimationState_keeps_progress [OF sample_api_running,
          of running_decoration sample_internal running_button sample_setOp False]
  by (simp add: running_eval) (simp add: running_animation_def)

section \<open>Properties of the button glyphs\<close>

lemma renderBackground_drawn:
  "drawn (renderBackground mix dp b p) =
     drawn p @ (if isValid (backgroundColor mix dp b)
                then [(None, Some (backgroundColor mix dp b), Ellipse (QRectF_of 0 0 36 36))]
                else [])"
  "transforms (renderBackground mix dp b p) = transforms p"
  "antialiasing (renderBackground mix dp b p) = antialiasing p"
  by (simp_all add: renderBackground_def draw_def Let_def)

lemma renderMark_drawn:
  "drawn (renderMark mix m dp b width fg p) =
     drawn p @
     (let pen = Some \<lparr>pen_color = fg, pen_capStyle = RoundCap, pen_joinStyle = MiterJoin,
                       pen_widthF = (if width = 0 then None
                                     else Some (PenWidth_Symbol m * max 1 (40 / width)))\<rparr>;
          bg = backgroundColor mix dp b;
          dot = (case dp of None \<Rightarrow> bg
                 | Some d \<Rightarrow> if isValid bg then bg else titleBarColor mix d)
      in case b_type b of
           Close \<Rightarrow> []
         | Maximize \<Rightarrow> []
         | Minimize \<Rightarrow> []
         | Menu \<Rightarrow> []
         | Spacer \<Rightarrow> []
         | OnAllDesktops \<Rightarrow>
             (if isChecked b then
                (None, Some fg, Ellipse (QRectF_of 6 6 24 24))
                # (if isValid dot then [(None, Some dot, Ellipse (QRectF_of 16 16 4 4))] else [])
              else [(None, Some fg, Polygon [(13, 13), (24, 6), (30, 12), (19, 22)]),
                    (pen, Some fg, Line (11, 15) (21, 25)),
                    (pen, Some fg, Line (24, 12) (9, 27))])
         | Shade \<Rightarrow>
             (if isChecked b then
                [(pen, None, Line (8, 11) (28, 11)),
                 (pen, None, Polyline [(8, 16), (18, 26), (28, 16)])]
              else [(pen, None, Line (8, 11) (28, 11)),
                    (pen, None, Polyline [(8, 26), (18, 16), (28, 26)])])
         | KeepBelow \<Rightarrow>
             [(pen, None, Polyline [(8, 10), (18, 20), (28, 10)]),
              (pen, None, Polyline [(8, 18), (18, 28), (28, 18)])]
         | KeepAbove \<Rightarrow>
             [(pen, None, Polyline [(8, 18), (18, 8), (28, 18)]),
              (pen, None, Polyline [(8, 26), (18, 16), (28, 26)])]
         | ApplicationMenu \<Rightarrow>
             [(pen, None, Rect (QRectF_of 7 9 22 2)),
              (pen, None, Rect (QRectF_of 7 17 22 2)),
              (pen, None, Rect (QRectF_of 7 25 22 2))]
         | ContextHelp \<Rightarrow>
             [(pen, None, Path [MoveTo 10 12, ArcTo (QRectF_of 10 7 16 10) 180 (- 180),
                               CubicTo (25, 19) (18, 15) (18, 23)]),
              (pen, None, Rect (QRectF_of 18 30 1 1))])"
  by (cases "b_type b") (simp_all add: renderMark_def draw_def Let_def split: option.splits)

lemma renderMark_frame:
  "transforms (renderMark mix m dp b width fg p) = transforms p"
  "antialiasing (renderMark mix m dp b width fg p) = antialiasing p"
  by (cases "b_type b"; simp add: renderMark_def draw_def Let_def split: option.splits)+

lemma pen_not_subpixel:
  fixes w s :: real
  assumes "0 < w" "0 \<le> s"
  shows "s \<le> s * max 1 (40 / w) * (w / 40)"
proof -
  have "1 \<le> max 1 (40 / w) * (w / 40)"
  proof (cases "1 \<le> 40 / w")
    case True
    then show ?thesis using assms(1) by (simp add: max_def)
  next
    case False
    then have "40 / w < 1" by simp
    then have "40 < w" using assms(1) by (simp add: divide_less_eq)
    then show ?thesis using False by (simp add: max_def)
  qed
  then have "s * 1 \<le> s * (max 1 (40 / w) * (w / 40))"
    using assms(2) by (rule mult_left_mono)
  then show ?thesis by (simp add: mult.assoc)
qed

text \<open>
  C2, as the code has it. For a button whose foreground colour is valid, \<open>drawIcon\<close>
  translates to the top left of the button's rectangle (geometry less padding) and
  scales by width / 40 in both directions; it draws the background disc when the
  background colour is valid, and then the glyph of the button's type. The glyph is
  empty for \<open>Close\<close>, \<open>Maximize\<close> and \<open>Minimize\<close> (and for \<open>Menu\<close> and \<open>Spacer\<close>).
  \<open>OnAllDesktops\<close> fills a ring and a centre dot when checked, and a polygon with two
  stroked lines otherwise; \<open>Shade\<close> strokes a line and a polyline that points down when
  checked and up otherwise; \<open>KeepBelow\<close> and \<open>KeepAbove\<close> stroke two polylines pointing
  down and up; \<open>ApplicationMenu\<close> strokes three bars; \<open>ContextHelp\<close> strokes a path of
  an arc and a curve, and a dot. On a button of width other than 0 the pen of every
  stroke has the width \<open>PenWidth_Symbol * max 1 (40 / width)\<close>, and on a button of
  positive width that is at least \<open>PenWidth_Symbol\<close> after the scaling; at width 0 the
  width of the pen is not finite.
\<close>

theorem drawIcon_glyphs:
  assumes fg: "foregroundColor mix dp b = Some fg" and valid: "isValid fg"
  shows "(let rect = marginsRemoved (m_padding b) (b_geometry b);
              width = rf_width rect;
              penWidth = (if width = 0 then None
                          else Some (PenWidth_Symbol m * max 1 (40 / width)));
              pen = Some \<lparr>pen_color = fg, pen_capStyle = RoundCap, pen_joinStyle = MiterJoin,
                           pen_widthF = penWidth\<rparr>;
              bg = backgroundColor mix dp b;
              dot = (case dp of None \<Rightarrow> bg
                     | Some d \<Rightarrow> if isValid bg then bg else titleBarColor mix d)
          in (\<exists>p'. drawIcon mix m dp b p = Some p'
               \<and> transforms p' = transforms p @ [Translate (rf_x rect) (rf_y rect),
                                                   Scale (width / 40) (width / 40)]
               \<and> drawn p' = drawn p
                    @ (if isValid bg then [(None, Some bg, Ellipse (QRectF_of 0 0 36 36))] else [])
                    @ (case b_type b of
                         Close \<Rightarrow> []
                       | Maximize \<Rightarrow> []
                       | Minimize \<Rightarrow> []
                       | Menu \<Rightarrow> []
                       | Spacer \<Rightarrow> []
                       | OnAllDesktops \<Rightarrow>
                           (if isChecked b then
                              (None, Some fg, Ellipse (QRectF_of 6 6 24 24))
                              # (if isValid dot
                                 then [(None, Some dot, Ellipse (QRectF_of 16 16 4 4))] else [])
                            else [(None, Some fg, Polygon [(13, 13), (24, 6), (30, 12), (19, 22)]),
                                  (pen, Some fg, Line (11, 15) (21, 25)),
                                  (pen, Some fg, Line (24, 12) (9, 27))])
                       | Shade \<Rightarrow>
                           (if isChecked b then
                              [(pen, None, Line (8, 11) (28, 11)),
                               (pen, None, Polyline [(8, 16), (18, 26), (28, 16)])]
                            else [(pen, None, Line (8, 11) (28, 11)),
                                  (pen, None, Polyline [(8, 26), (18, 16), (28, 26)])])
                       | KeepBelow \<Rightarrow>
                           [(pen, None, Polyline [(8, 10), (18, 20), (28, 10)]),
                            (pen, None, Polyline [(8, 18), (18, 28), (28, 18)])]
                       | KeepAbove \<Rightarrow>
                           [(pen, None, Polyline [(8, 18), (18, 8), (28, 18)]),
                            (pen, None, Polyline [(8, 26), (18, 16), (28, 26)])]
                       | ApplicationMenu \<Rightarrow>
                           [(pen, None, Rect (QRectF_of 7 9 22 2)),
                            (pen, None, Rect (QRectF_of 7 17 22 2)),
                            (pen, None, Rect (QRectF_of 7 25 22 2))]
                       | ContextHelp \<Rightarrow>
                           [(pen, None, Path [MoveTo 10 12,
                                             ArcTo (QRectF_of 10 7 16 10) 180 (- 180),
                                             CubicTo (25, 19) (18, 15) (18, 23)]),
                            (pen, None, Rect (QRectF_of 18 30 1 1))]))
             \<and> (width \<noteq> 0 \<longrightarrow> penWidth = Some (PenWidth_Symbol m * max 1 (40 / width)))
             \<and> (width = 0 \<longrightarrow> penWidth = None)
             \<and> (\<forall>pw. penWidth = Some pw \<and> 0 < width \<and> 0 \<le> PenWidth_Symbol m \<longrightarrow>
                    PenWidth_Symbol m \<le> pw * (width / 40)))"
proof -
  define rect where "rect = marginsRemoved (m_padding b) (b_geometry b)"
  define p3 where "p3 = p\<lparr>antialiasing := True,
     transforms := transforms p @ [Translate (rf_x rect) (rf_y rect),
                                   Scale (rf_width rect / 40) (rf_width rect / 40)]\<rparr>"
  define p' where "p' = renderMark mix m dp b (rf_width rect) fg (renderBackground mix dp b p3)"
  have run: "drawIcon mix m dp b p = Some p'"
    by (simp add: drawIcon_def fg valid Let_def rect_def p3_def p'_def)
  have dp3: "drawn p3 = drawn p"
    by (simp add: p3_def)
  have t: "transforms p' = transforms p @ [Translate (rf_x rect) (rf_y rect),
                        Scale (rf_width rect / 40) (rf_width rect / 40)]"
    by (simp add: p'_def renderMark_frame renderBackground_drawn p3_def)
  have d: "drawn p' = drawn (renderBackground mix dp b p3)
      @ (let pen = Some \<lparr>pen_color = fg, pen_capStyle = RoundCap, pen_joinStyle = MiterJoin,
                       pen_widthF = (if rf_width rect = 0 then None
                                     else Some (PenWidth_Symbol m * max 1 (40 / rf_width rect)))\<rparr>;
          bg = backgroundColor mix dp b;
          dot = (case dp of None \<Rightarrow> bg
                 | Some d \<Rightarrow> if isValid bg then bg else titleBarColor mix d)
      in case b_type b of
           Close \<Rightarrow> []
         | Maximize \<Rightarrow> []
         | Minimize \<Rightarrow> []
         | Menu \<Rightarrow> []
         | Spacer \<Rightarrow> []
         | OnAllDesktops \<Rightarrow>
             (if isChecked b then
                (None, Some fg, Ellipse (QRectF_of 6 6 24 24))
                # (if isValid dot then [(None, Some dot, Ellipse (QRectF_of 16 16 4 4))] else [])
              else [(None, Some fg, Polygon [(13, 13), (24, 6), (30, 12), (19, 22)]),
                    (pen, Some fg, Line (11, 15) (21, 25)),
                    (pen, Some fg, Line (24, 12) (9, 27))])
         | Shade \<Rightarrow>
             (if isChecked b then
                [(pen, None, Line (8, 11) (28, 11)),
                 (pen, None, Polyline [(8, 16), (18, 26), (28, 16)])]
              else [(pen, None, Line (8, 11) (28, 11)),
                    (pen, None, Polyline [(8, 26), (18, 16), (28, 26)])])
         | KeepBelow \<Rightarrow>
             [(pen, None, Polyline [(8, 10), (18, 20), (28, 10)]),
              (pen, None, Polyline [(8, 18), (18, 28), (28, 18)])]
         | KeepAbove \<Rightarrow>
             [(pen, None, Polyline [(8, 18), (18, 8), (28, 18)]),
              (pen, None, Polyline [(8, 26), (18, 16), (28, 26)])]
         | ApplicationMenu \<Rightarrow>
             [(pen, None, Rect (QRectF_of 7 9 22 2)),
              (pen, None, Rect (QRectF_of 7 17 22 2)),
              (pen, None, Rect (QRectF_of 7 25 22 2))]
         | ContextHelp \<Rightarrow>
             [(pen, None, Path [MoveTo 10 12, ArcTo (QRectF_of 10 7 16 10) 180 (- 180),
                               CubicTo (25, 19) (18, 15) (18, 23)]),
              (pen, None, Rect (QRectF_of 18 30 1 1))])"
    unfolding p'_def by (rule renderMark_drawn)
  have bgd: "drawn (renderBackground mix dp b p3) = drawn p
      @ (if isValid (backgroundColor mix dp b)
         then [(None, Some (backgroundColor mix dp b), Ellipse (QRectF_of 0 0 36 36))] else [])"
    by (simp add: renderBackground_drawn dp3)
  have w: "0 < rf_width rect \<and> 0 \<le> PenWidth_Symbol m \<longrightarrow>
      PenWidth_Symbol m \<le> PenWidth_Symbol m * max 1 (40 / rf_width rect) * (rf_width rect / 40)"
    using pen_not_subpixel by blast
  have first: "\<exists>q. drawIcon mix m dp b p = Some q
      \<and> transforms q = transforms p @ [Translate (rf_x rect) (rf_y rect),
                        Scale (rf_width rect / 40) (rf_width rect / 40)]
      \<and> drawn q = drawn p
      @ (if isValid (backgroundColor mix dp b)
         then [(None, Some (backgroundColor mix dp b), Ellipse (QRectF_of 0 0 36 36))] else [])
      @ (let pen = Some \<lparr>pen_color = fg, pen_capStyle = RoundCap, pen_joinStyle = MiterJoin,
                       pen_widthF = (if rf_width rect = 0 then None
                                     else Some (PenWidth_Symbol m * max 1 (40 / rf_width rect)))\<rparr>;
          bg = backgroundColor mix dp b;
          dot = (case dp of None \<Rightarrow> bg
                 | Some d \<Rightarrow> if isValid bg then bg else titleBarColor mix d)
      in case b_type b of
           Close \<Rightarrow> []
         | Maximize \<Rightarrow> []
         | Minimize \<Rightarrow> []
         | Menu \<Rightarrow> []
         | Spacer \<Rightarrow> []
         | OnAllDesktops \<Rightarrow>
             (if isChecked b then
                (None, Some fg, Ellipse (QRectF_of 6 6 24 24))
                # (if isValid dot then [(None, Some dot, Ellipse (QRectF_of 16 16 4 4))] else [])
              else [(None, Some fg, Polygon [(13, 13), (24, 6), (30, 12), (19, 22)]),
                    (pen, Some fg, Line (11, 15) (21, 25)),
                    (pen, Some fg, Line (24, 12) (9, 27))])
         | Shade \<Rightarrow>
             (if isChecked b then
                [(pen, None, Line (8, 11) (28, 11)),
                 (pen, None, Polyline [(8, 16), (18, 26), (28, 16)])]
              else [(pen, None, Line (8, 11) (28, 11)),
                    (pen, None, Polyline [(8, 26), (18, 16), (28, 26)])])
         | KeepBelow \<Rightarrow>
             [(pen, None, Polyline [(8, 10), (18, 20), (28, 10)]),
              (pen, None, Polyline [(8, 18), (18, 28), (28, 18)])]
         | KeepAbove \<Rightarrow>
             [(pen, None, Polyline [(8, 18), (18, 8), (28, 18)]),
              (pen, None, Polyline [(8, 26), (18, 16), (28, 26)])]
         | ApplicationMenu \<Rightarrow>
             [(pen, None, Rect (QRectF_of 7 9 22 2)),
              (pen, None, Rect (QRectF_of 7 17 22 2)),
              (pen, None, Rect (QRectF_of 7 25 22 2))]
         | ContextHelp \<Rightarrow>
             [(pen, None, Path [MoveTo 10 12, ArcTo (QRectF_of 10 7 16 10) 180 (- 180),
                               CubicTo (25, 19) (18, 15) (18, 23)]),
              (pen, None, Rect (QRectF_of 18 30 1 1))])"
    using run t d bgd by (intro exI [of _ p']) (simp only: simp_thms append_assoc)
  show ?thesis
    unfolding rect_def [symmetric] using first w by (simp add: Let_def)
qed

lemmas drawIcon_defs =
  drawIcon_def renderBackground_def renderMark_def draw_def foregroundColor_def
  backgroundColor_def titleBarColor_def fontColor_def marginsRemoved_def
  sample_painter_def sample_metrics_def Red_def Green_def Yellow_def Let_def

lemma sample_foreground:
  "foregroundColor sample_mix (Some sample_decoration) (sample_button t) = Some (Rgba 250 250 250 255)"
  by (simp add: foregroundColor_def fontColor_def sample_defs)

lemma sample_foreground_valid: "isValid (Rgba 250 250 250 255)"
  by simp

lemma shade_drawIcon:
  "drawIcon sample_mix sample_metrics (Some sample_decoration) (sample_button Shade) sample_painter
     = Some \<lparr>antialiasing = True,
             transforms = [Translate 0 0, Scale (9 / 10) (9 / 10)],
             p_pen = Some \<lparr>pen_color = Rgba 250 250 250 255, pen_capStyle = RoundCap,
                           pen_joinStyle = MiterJoin, pen_widthF = Some (101 / 90)\<rparr>,
             p_brush = None,
             drawn = [(Some \<lparr>pen_color = Rgba 250 250 250 255, pen_capStyle = RoundCap,
                              pen_joinStyle = MiterJoin, pen_widthF = Some (101 / 90)\<rparr>,
                       None, Line (8, 11) (28, 11)),
                      (Some \<lparr>pen_color = Rgba 250 250 250 255, pen_capStyle = RoundCap,
                              pen_joinStyle = MiterJoin, pen_widthF = Some (101 / 90)\<rparr>,
                       None, Polyline [(8, 26), (18, 16), (28, 26)])]\<rparr>"
  by (simp add: drawIcon_defs sample_defs)

lemma keepAbove_drawn:
  "map_option drawn (drawIcon sample_mix sample_metrics (Some sample_decoration)
        (sample_button KeepAbove) sample_painter)
     = Some [(Some \<lparr>pen_color = Rgba 250 250 250 255, pen_capStyle = RoundCap,
                     pen_joinStyle = MiterJoin, pen_widthF = Some (101 / 90)\<rparr>,
              None, Polyline [(8, 18), (18, 8), (28, 18)]),
             (Some \<lparr>pen_color = Rgba 250 250 250 255, pen_capStyle = RoundCap,
                     pen_joinStyle = MiterJoin, pen_widthF = Some (101 / 90)\<rparr>,
              None, Polyline [(8, 26), (18, 16), (28, 26)])]"
  by (simp add: drawIcon_defs sample_defs)

lemma zero_width_pen:
  "map_option p_pen (drawIcon sample_mix sample_metrics (Some sample_decoration)
        ((sample_button Shade)\<lparr>b_geometry := \<lparr>rf_x = 0, rf_y = 0, rf_width = 0, rf_height = 0\<rparr>\<rparr>)
        sample_painter)
     = Some (Some \<lparr>pen_color = Rgba 250 250 250 255, pen_capStyle = RoundCap,
                    pen_joinStyle = MiterJoin, pen_widthF = None\<rparr>)"
  by (simp add: drawIcon_defs sample_defs)

text \<open>A shade button and a keep-above button 36 wide: scale 9/10, pen width 101/90, a
  line and a polyline for the one, two polylines for the other. A shade button of
  width 0 has a pen of no finite width.\<close>

theorem drawIcon_glyphs_witness:
  "isValid (Rgba 250 250 250 255)
   \<and> drawIcon sample_mix sample_metrics (Some sample_decoration) (sample_button Shade) sample_painter
     = Some \<lparr>antialiasing = True,
             transforms = [Translate 0 0, Scale (9 / 10) (9 / 10)],
             p_pen = Some \<lparr>pen_color = Rgba 250 250 250 255, pen_capStyle = RoundCap,
                           pen_joinStyle = MiterJoin, pen_widthF = Some (101 / 90)\<rparr>,
             p_brush = None,
             drawn = [(Some \<lparr>pen_color = Rgba 250 250 250 255, pen_capStyle = RoundCap,
                              pen_joinStyle = MiterJoin, pen_widthF = Some (101 / 90)\<rparr>,
                       None, Line (8, 11) (28, 11)),
                      (Some \<lparr>pen_color = Rgba 250 250 250 255, pen_capStyle = RoundCap,
                              pen_joinStyle = MiterJoin, pen_widthF = Some (101 / 90)\<rparr>,
                       None, Polyline [(8, 26), (18, 16), (28, 26)])]\<rparr>
   \<and> map_option drawn (drawIcon sample_mix sample_metrics (Some sample_decoration)
        (sample_button KeepAbove) sample_painter)
     = Some [(Some \<lparr>pen_color = Rgba 250 250 250 255, pen_capStyle = RoundCap,
                     pen_joinStyle = MiterJoin, pen_widthF = Some (101 / 90)\<rparr>,
              None, Polyline [(8, 18), (18, 8), (28, 18)]),
             (Some \<lparr>pen_color = Rgba 250 250 250 255, pen_capStyle = RoundCap,
                     pen_joinStyle = MiterJoin, pen_widthF = Some (101 / 90)\<rparr>,
              None, Polyline [(8, 26), (18, 16), (28, 26)])]
   \<and> map_option p_pen (drawIcon sample_mix sample_metrics (Some sample_decoration)
        ((sample_button Shade)\<lparr>b_geometry := \<lparr>rf_x = 0, rf_y = 0, rf_width = 0, rf_height = 0\<rparr>\<rparr>)
        sample_painter)
     = Some (Some \<lparr>pen_color = Rgba 250 250 250 255, pen_capStyle = RoundCap,
                    pen_joinStyle = MiterJoin, pen_widthF = None\<rparr>)"
  using drawIcon_glyphs [OF sample_foreground sample_foreground_valid,
          of Shade sample_metrics sample_painter]
        drawIcon_glyphs [OF sample_foreground sample_foreground_valid,
          of KeepAbove sample_metrics sample_painter]
  by (simp only: shade_drawIcon keepAbove_drawn zero_width_pen sample_foreground_valid simp_thms)

text \<open>
  C2 as the claim words it gives \<open>Close\<close>, \<open>Maximize\<close> and \<open>Minimize\<close> a non-empty
  glyph. With a valid foreground colour each of the three draws the background disc,
  with no pen, and nothing else.
\<close>

theorem drawIcon_close_counterexample:
  "foregroundColor sample_mix (Some sample_decoration) (sample_button Close)
     = Some (Rgba 250 250 250 255)
   \<and> isValid (Rgba 250 250 250 255)
   \<and> map_option drawn (drawIcon sample_mix sample_metrics (Some sample_decoration)
        (sample_button Close) sample_painter)
     = Some [(None, Some (Rgba 255 0 0 128), Ellipse (QRectF_of 0 0 36 36))]
   \<and> map_option drawn (drawIcon sample_mix sample_metrics (Some sample_decoration)
        (sample_button Maximize) sample_painter)
     = Some [(None, Some (Rgba 0 255 0 128), Ellipse (QRectF_of 0 0 36 36))]
   \<and> map_option drawn (drawIcon sample_mix sample_metrics (Some sample_decoration)
        (sample_button Minimize) sample_painter)
     = Some [(None, Some (Rgba 255 255 0 128), Ellipse (QRectF_of 0 0 36 36))]"
  by (simp add: drawIcon_defs sample_defs)

end
